theory Spec2Isabelle
  imports Complex_Main "HOL-Library.Log_Nat"
begin

section \<open>Data model\<close>

text \<open>
  The tables of the Sequelize models, one record per row. Primary keys are the
  auto-increment integers of the models. A \<open>DECIMAL(10, 2)\<close> column is held as the exact
  rational it denotes. A JavaScript number is held as the rational it denotes as well, and
  every result of \<open>parseFloat\<close>, \<open>*\<close> and \<open>+\<close> is rounded to the nearest double
  (section on numbers below). The queries of the controllers have no \<open>ORDER BY\<close>; the model
  returns rows in the order of the lists.
  \<open>priceAtAdd\<close> is optional: \<open>addToCart\<close> tests \<open>!cartItem.priceAtAdd\<close>,
  which is true of a row that carries no price (\<open>None\<close>); a stored decimal string is
  never falsy.
\<close>

text \<open>
  Modelled from the spec: the Product model (\<open>models/Product.js\<close>) is not among the
  sources. Its attributes are the ones \<open>createProduct\<close> and \<open>updateProduct\<close> write;
  section 3 of the specification gives the price as a fixed-point decimal and the available
  quantity as an integer.
\<close>

record product =
  product_id :: nat
  name :: string
  description :: "string option"
  price :: rat
  stock :: int
  categoryId :: "nat option"
  imageUrl :: "string option"

record cart =
  cart_id :: nat
  cart_userId :: nat

record cartItem =
  item_id :: nat
  cartId :: nat
  productId :: nat
  quantity :: int
  priceAtAdd :: "rat option"

text \<open>
  Modelled from the spec: the Order and OrderItem models (\<open>models/Order.js\<close>,
  \<open>models/OrderItem.js\<close>) are not among the sources. Their attributes are those that
  \<open>placeOrder\<close> writes and that section 3 of the specification lists: an order has an
  owner, a \<open>totalAmount\<close> and a \<open>status\<close>; an order line has a product, a quantity and a
  \<open>priceAtPurchase\<close>. \<open>totalAmount\<close> holds what \<open>toFixed(2)\<close> returned, \<open>None\<close>
  standing for the text \<open>NaN\<close>.
\<close>

record order =
  order_id :: nat
  order_userId :: nat
  totalAmount :: "rat option"
  status :: string

record orderItem =
  orderItem_id :: nat
  orderId :: nat
  oi_productId :: nat
  oi_quantity :: int
  priceAtPurchase :: "rat option"

text \<open>
  The database: the rows of each table in insertion order, the existing category ids
  (all that \<open>updateProduct\<close> reads of the Category table), and the last value issued by
  each table's id sequence.
\<close>

record db =
  products :: "product list"
  categories :: "nat list"
  carts :: "cart list"
  cartItems :: "cartItem list"
  orders :: "order list"
  orderItems :: "orderItem list"
  cartSeq :: nat
  cartItemSeq :: nat
  orderSeq :: nat
  orderItemSeq :: nat

section \<open>Responses\<close>

text \<open>
  The \<open>message\<close> field of a JSON response. A constructor with arguments stands for a
  template string and carries the interpolated values:
  \<^item> \<open>InsufficientStockFor n k\<close>: "Insufficient stock for n. Only k available";
  \<^item> \<open>CannotAddMore k\<close>: "Cannot add more items. Only k items available";
  \<^item> \<open>InsufficientStockOnly k\<close>: "Insufficient stock. Only k available".
\<close>

datatype message =
    CartIsEmpty
  | InsufficientStockFor string int
  | OrderPlaced
  | ErrorPlacingOrder
  | OrderNotFound
  | InvalidStatus
  | OrderStatusUpdated
  | ProductNotFound
  | CategoryNotFound
  | ErrorUploadingImage
  | ProductUpdated
  | ErrorUpdatingProduct
  | CannotAddMore int
  | ItemAdded
  | ErrorAddingItem
  | CartNotFound
  | CartItemNotFound
  | QuantityAtLeastOne
  | InsufficientStockOnly int
  | CartItemUpdated
  | ErrorUpdatingCartItem
  | CartCleared

type_synonym cartView = "cart \<times> (cartItem \<times> product option) list"
type_synonym orderView = "order \<times> (orderItem \<times> product option) list"

datatype payload =
    NoData
  | CartData "cartView option"
  | OrderData "orderView option"
  | ProductData "product option"

datatype response =
  Response (statusCode: nat) (success: bool) (message: "message option") (data: payload)

section \<open>Numbers and strings of JavaScript\<close>

text \<open>
  \<open>Number.prototype.toFixed(2)\<close> on the exact value of a number: the nearest multiple of
  1/100, the larger one in a tie, applied to the magnitude of a negative number.
\<close>

definition toFixed2 :: "rat \<Rightarrow> rat" where
  "toFixed2 x =
     (if x < 0 then - (of_int \<lfloor>(- x) * 100 + 1 / 2\<rfloor> / 100)
      else of_int \<lfloor>x * 100 + 1 / 2\<rfloor> / 100)"

text \<open>What a \<open>DECIMAL\<close> column of scale 2 stores of a value sent to it: PostgreSQL rounds
  to the scale, ties away from zero.\<close>

definition storeDecimal2 :: "rat \<Rightarrow> rat" where
  "storeDecimal2 x = toFixed2 x"

text \<open>
  Rounding to the nearest IEEE 754 double, ties to even: \<open>binade x\<close> is the exponent
  \<open>e\<close> with \<open>2 ^ e \<le> |x| < 2 ^ (e + 1)\<close>, found from the bit lengths of numerator and
  denominator, and the value is rounded to a multiple of \<open>2 ^ (e - 52)\<close>, which leaves 53
  significant bits. The exponent range of doubles (overflow to infinity, subnormal numbers)
  is not modelled.
\<close>

definition binade :: "rat \<Rightarrow> int" where
  "binade x =
     (let (a, b) = quotient_of \<bar>x\<bar>; k = bitlen a - bitlen b
      in if 2 powi k \<le> \<bar>x\<bar> then k else k - 1)"

definition roundHalfEven :: "rat \<Rightarrow> int" where
  "roundHalfEven y =
     (let f = \<lfloor>y\<rfloor>; r = y - of_int f
      in if r < 1 / 2 then f else if 1 / 2 < r then f + 1 else if even f then f else f + 1)"

definition toDouble :: "rat \<Rightarrow> rat" where
  "toDouble x =
     (if x = 0 then 0
      else let q = 2 powi (binade x - 52) in of_int (roundHalfEven (x / q)) * q)"

text \<open>The unit roundoff of doubles: half the distance from 1 to the next double.\<close>

definition unitRoundoff :: rat where
  "unitRoundoff = 1 / 2 ^ 53"

text \<open>
  The \<open>quantity\<close> of a request body as \<open>express.json()\<close> or the urlencoded parser
  delivers it and the route's \<open>isInt({ min: 1 })\<close> lets it through: an integer number, or
  a string of an optional sign and decimal digits. The validator does not convert, so the
  controller sees the string.
\<close>

datatype jsValue = JsNumber int | JsString string

text \<open>The decimal digits of a natural number, and \<open>String(n)\<close> for an integer.\<close>

function showNat :: "nat \<Rightarrow> string" where
  "showNat n =
     (if n < 10 then [''0123456789'' ! n]
      else showNat (n div 10) @ [''0123456789'' ! (n mod 10)])"
  by pat_completeness auto
termination
  by (relation "measure id") auto

definition numberToString :: "int \<Rightarrow> string" where
  "numberToString n = (if n < 0 then CHR ''-'' # showNat (nat (- n)) else showNat (nat n))"

text \<open>
  Reading a string as an integer: an optional sign, then one or more decimal digits, and
  nothing else. The strings that occur are the ones the route lets through and what
  \<open>+\<close> makes of them with a printed integer in front. When such a string is of this
  shape, the integer is what \<open>ToNumber\<close> gives in a comparison and what PostgreSQL stores
  in an INTEGER column; when it is not (a sign inside, as in \<open>2+3\<close>), \<open>ToNumber\<close> is
  \<open>NaN\<close> and PostgreSQL refuses the value: \<open>None\<close>.
\<close>

definition digitValue :: "char \<Rightarrow> nat option" where
  "digitValue c = map_of (zip ''0123456789'' [0 ..< 10]) c"

fun digitsValue :: "nat \<Rightarrow> string \<Rightarrow> nat option" where
  "digitsValue acc [] = Some acc"
| "digitsValue acc (c # cs) =
     (case digitValue c of None \<Rightarrow> None | Some v \<Rightarrow> digitsValue (10 * acc + v) cs)"

definition stringToNumber :: "string \<Rightarrow> int option" where
  "stringToNumber s =
     (case s of
        [] \<Rightarrow> None
      | c # cs \<Rightarrow>
          if c = CHR ''-'' then
            (if cs = [] then None else map_option (\<lambda>n. - int n) (digitsValue 0 cs))
          else if c = CHR ''+'' then
            (if cs = [] then None else map_option int (digitsValue 0 cs))
          else map_option int (digitsValue 0 s))"

definition numberOf :: "jsValue \<Rightarrow> int option" where
  "numberOf v = (case v of JsNumber n \<Rightarrow> Some n | JsString s \<Rightarrow> stringToNumber s)"

text \<open>\<open>n + v\<close> with a number on the left: a sum when \<open>v\<close> is a number, the
  concatenation of \<open>String(n)\<close> and \<open>v\<close> when \<open>v\<close> is a string.\<close>

definition plusValue :: "int \<Rightarrow> jsValue \<Rightarrow> jsValue" where
  "plusValue n v =
     (case v of
        JsNumber q \<Rightarrow> JsNumber (n + q)
      | JsString s \<Rightarrow> JsString (numberToString n @ s))"

text \<open>\<open>n < v\<close>: the string is converted first, and a comparison with \<open>NaN\<close> is
  false.\<close>

definition lessThanValue :: "int \<Rightarrow> jsValue \<Rightarrow> bool" where
  "lessThanValue n v = (case numberOf v of None \<Rightarrow> False | Some m \<Rightarrow> n < m)"

section \<open>Queries\<close>

definition findProduct :: "db \<Rightarrow> nat \<Rightarrow> product option" where
  "findProduct d pid = find (\<lambda>p. product_id p = pid) (products d)"

definition findCart :: "db \<Rightarrow> nat \<Rightarrow> cart option" where
  "findCart d uid = find (\<lambda>c. cart_userId c = uid) (carts d)"

definition itemsOf :: "db \<Rightarrow> nat \<Rightarrow> cartItem list" where
  "itemsOf d cid = filter (\<lambda>i. cartId i = cid) (cartItems d)"

definition findOrder :: "db \<Rightarrow> nat \<Rightarrow> order option" where
  "findOrder d oid = find (\<lambda>ord. order_id ord = oid) (orders d)"

definition orderItemsOf :: "db \<Rightarrow> nat \<Rightarrow> orderItem list" where
  "orderItemsOf d oid = filter (\<lambda>i. orderId i = oid) (orderItems d)"

text \<open>The \<open>include\<close> of a query: each line joined with its product, \<open>None\<close> when the
  product row is missing.\<close>

definition cartWithItems :: "db \<Rightarrow> cart \<Rightarrow> cartView" where
  "cartWithItems d c =
     (c, map (\<lambda>i. (i, findProduct d (productId i))) (itemsOf d (cart_id c)))"

definition orderWithItems :: "db \<Rightarrow> order \<Rightarrow> orderView" where
  "orderWithItems d ord =
     (ord, map (\<lambda>i. (i, findProduct d (oi_productId i))) (orderItemsOf d (order_id ord)))"

section \<open>Order ledger (orderController.js)\<close>

text \<open>\<open>getOrderById\<close>: one query on both the id and the caller's user id.\<close>

definition getOrderById :: "db \<Rightarrow> nat \<Rightarrow> nat \<Rightarrow> response" where
  "getOrderById d userId oid =
     (case find (\<lambda>ord. order_id ord = oid \<and> order_userId ord = userId) (orders d) of
        None \<Rightarrow> Response 404 False (Some OrderNotFound) NoData
      | Some ord \<Rightarrow> Response 200 True None (OrderData (Some (orderWithItems d ord))))"

definition validStatuses :: "string list" where
  "validStatuses = [''pending'', ''completed'', ''cancelled'']"

definition setStatusRows :: "nat \<Rightarrow> string \<Rightarrow> order list \<Rightarrow> order list" where
  "setStatusRows oid st os =
     map (\<lambda>ord. if order_id ord = oid then ord\<lparr>status := st\<rparr> else ord) os"

text \<open>\<open>updateOrderStatus\<close>: the status is checked first, then the order is looked up,
  then \<open>order.update({ status })\<close> writes the one column and the order is read again.\<close>

definition updateOrderStatus :: "db \<Rightarrow> nat \<Rightarrow> string \<Rightarrow> response \<times> db" where
  "updateOrderStatus d oid st =
     (if st \<notin> set validStatuses then
        (Response 400 False (Some InvalidStatus) NoData, d)
      else case findOrder d oid of
        None \<Rightarrow> (Response 404 False (Some OrderNotFound) NoData, d)
      | Some ord \<Rightarrow>
          (let d' = d\<lparr>orders := setStatusRows oid st (orders d)\<rparr>
           in (Response 200 True (Some OrderStatusUpdated)
                 (OrderData (map_option (orderWithItems d') (findOrder d' oid))), d')))"

section \<open>Catalog update (productController.js)\<close>

text \<open>
  The body of a product update. A field that the request leaves out is \<open>None\<close>;
  \<open>product.update\<close> leaves the column of such a field as it is. \<open>body_file\<close> is the
  outcome of \<open>uploadToCloudinary\<close> on the attached image, when there is one. The price
  is stored at the scale of its column.
\<close>

datatype uploadResult = UploadError | SecureUrl string

record productBody =
  body_name :: "string option"
  body_description :: "string option"
  body_price :: "rat option"
  body_stock :: "int option"
  body_categoryId :: "nat option"
  body_file :: "uploadResult option"

definition orElse :: "'a option \<Rightarrow> 'a \<Rightarrow> 'a" where
  "orElse v dflt = (case v of None \<Rightarrow> dflt | Some x \<Rightarrow> x)"

definition applyBody :: "productBody \<Rightarrow> string option \<Rightarrow> product \<Rightarrow> product" where
  "applyBody b img p =
     p\<lparr>name := orElse (body_name b) (name p),
       description := (case body_description b of None \<Rightarrow> description p | Some x \<Rightarrow> Some x),
       price := (case body_price b of None \<Rightarrow> price p | Some pr \<Rightarrow> storeDecimal2 pr),
       stock := orElse (body_stock b) (stock p),
       categoryId := (case body_categoryId b of None \<Rightarrow> categoryId p | Some c \<Rightarrow> Some c),
       imageUrl := img\<rparr>"

definition categoryMissing :: "db \<Rightarrow> productBody \<Rightarrow> bool" where
  "categoryMissing d b =
     (case body_categoryId b of
        None \<Rightarrow> False
      | Some c \<Rightarrow> c \<noteq> 0 \<and> c \<notin> set (categories d))"

text \<open>
  \<open>if (categoryId)\<close> skips the lookup for the falsy id 0. The category column of a
  product references the Category table, so \<open>product.update\<close> throws on an id that names
  no category; the controller's \<open>catch\<close> answers 500.
\<close>

definition violatesCategoryKey :: "db \<Rightarrow> productBody \<Rightarrow> bool" where
  "violatesCategoryKey d b =
     (case body_categoryId b of None \<Rightarrow> False | Some c \<Rightarrow> c \<notin> set (categories d))"

definition updateProduct :: "db \<Rightarrow> nat \<Rightarrow> productBody \<Rightarrow> response \<times> db" where
  "updateProduct d pid b =
     (case findProduct d pid of
        None \<Rightarrow> (Response 404 False (Some ProductNotFound) NoData, d)
      | Some p \<Rightarrow>
          if categoryMissing d b then (Response 404 False (Some CategoryNotFound) NoData, d)
          else case body_file b of
            Some UploadError \<Rightarrow> (Response 500 False (Some ErrorUploadingImage) NoData, d)
          | upl \<Rightarrow>
              if violatesCategoryKey d b
              then (Response 500 False (Some ErrorUpdatingProduct) NoData, d)
              else
              (let img = (case upl of Some (SecureUrl u) \<Rightarrow> Some u | _ \<Rightarrow> imageUrl p);
                   d' = d\<lparr>products :=
                          map (\<lambda>r. if product_id r = product_id p then applyBody b img r else r)
                            (products d)\<rparr>
               in (Response 200 True (Some ProductUpdated)
                     (ProductData (findProduct d' (product_id p))), d')))"

text \<open>A run of catalog updates (admin requests \<open>PUT /api/products/:id\<close>), each on the
  database the one before left.\<close>

fun catalogUpdates :: "db \<Rightarrow> (nat \<times> productBody) list \<Rightarrow> db" where
  "catalogUpdates d [] = d"
| "catalogUpdates d ((pid, b) # rest) = catalogUpdates (snd (updateProduct d pid b)) rest"

section \<open>Selection (cart controller)\<close>

text \<open>\<open>Cart.findOne\<close>, then \<open>Cart.create\<close> when the customer has no cart yet.\<close>

definition getOrCreateCart :: "db \<Rightarrow> nat \<Rightarrow> cart \<times> db" where
  "getOrCreateCart d uid =
     (case findCart d uid of
        Some c \<Rightarrow> (c, d)
      | None \<Rightarrow>
          (let c = \<lparr>cart_id = cartSeq d + 1, cart_userId = uid\<rparr>
           in (c, d\<lparr>carts := carts d @ [c], cartSeq := cartSeq d + 1\<rparr>)))"

definition findCartItem :: "db \<Rightarrow> nat \<Rightarrow> nat \<Rightarrow> cartItem option" where
  "findCartItem d cid pid = find (\<lambda>i. cartId i = cid \<and> productId i = pid) (cartItems d)"


text \<open>
  The model's \<open>validate: { min: 1 }\<close> on \<open>quantity\<close>. \<open>CartItem.create\<close> checks
  every attribute; \<open>save\<close> checks the attributes that changed. The column is an INTEGER:
  PostgreSQL refuses a value above 2147483647. A failed check or a refused value throws,
  which the controllers' \<open>catch\<close> turns into a 500 response. A quantity that \<open>save\<close>
  writes has passed the comparison with the product's stock, itself an INTEGER.
\<close>

definition createCartItem :: "db \<Rightarrow> nat \<Rightarrow> nat \<Rightarrow> int \<Rightarrow> rat \<Rightarrow> db option" where
  "createCartItem d cid pid qty pr =
     (if qty < 1 \<or> 2147483647 < qty then None
      else Some (d\<lparr>cartItems := cartItems d @
                     [\<lparr>item_id = cartItemSeq d + 1, cartId = cid, productId = pid,
                       quantity = qty, priceAtAdd = Some pr\<rparr>],
                   cartItemSeq := cartItemSeq d + 1\<rparr>))"

definition saveCartItem :: "db \<Rightarrow> cartItem \<Rightarrow> int \<Rightarrow> rat option \<Rightarrow> db option" where
  "saveCartItem d ci qty backfill =
     (if qty \<noteq> quantity ci \<and> qty < 1 then None
      else Some (d\<lparr>cartItems :=
                     map (\<lambda>r. if item_id r = item_id ci
                              then r\<lparr>quantity := qty,
                                     priceAtAdd := (case backfill of None \<Rightarrow> priceAtAdd r
                                                    | Some pr \<Rightarrow> Some pr)\<rparr>
                              else r)
                       (cartItems d)\<rparr>))"

text \<open>
  \<open>save\<close> after \<open>cartItem.quantity = newQuantity\<close>. A string differs from the number
  the line held, so the attribute has changed and is validated; PostgreSQL converts the
  string and refuses one that is no integer.
\<close>

definition saveNewQuantity :: "db \<Rightarrow> cartItem \<Rightarrow> jsValue \<Rightarrow> rat option \<Rightarrow> db option" where
  "saveNewQuantity d ci v backfill =
     (case v of
        JsNumber n \<Rightarrow> saveCartItem d ci n backfill
      | JsString s \<Rightarrow>
          (case stringToNumber s of
             None \<Rightarrow> None
           | Some n \<Rightarrow> if n < 1 then None else saveCartItem d ci n backfill))"

definition cartResponse :: "message \<Rightarrow> db \<Rightarrow> nat \<Rightarrow> response" where
  "cartResponse m d uid =
     Response 200 True (Some m) (CartData (map_option (cartWithItems d) (findCart d uid)))"

text \<open>
  \<open>addToCart\<close>. There is no transaction: a cart created on the way stays when a later
  step fails. The price is written into an existing line only when the line has none.
  \<open>quantity\<close> is used as it arrived: \<open>cartItem.quantity + quantity\<close> is a sum for a
  number and a concatenation for a string. \<open>CartItem.create\<close> stores the integer that the
  value denotes.
\<close>

definition addToCart :: "db \<Rightarrow> nat \<Rightarrow> nat \<Rightarrow> jsValue \<Rightarrow> response \<times> db" where
  "addToCart d uid pid qty =
     (case findProduct d pid of
        None \<Rightarrow> (Response 404 False (Some ProductNotFound) NoData, d)
      | Some p \<Rightarrow>
          (let (c, d1) = getOrCreateCart d uid
           in case findCartItem d1 (cart_id c) pid of
                Some ci \<Rightarrow>
                  (let newQuantity = plusValue (quantity ci) qty
                   in if lessThanValue (stock p) newQuantity
                      then (Response 400 False (Some (CannotAddMore (stock p))) NoData, d1)
                      else case saveNewQuantity d1 ci newQuantity
                                  (if priceAtAdd ci = None then Some (price p) else None) of
                             None \<Rightarrow> (Response 500 False (Some ErrorAddingItem) NoData, d1)
                           | Some d2 \<Rightarrow> (cartResponse ItemAdded d2 uid, d2))
              | None \<Rightarrow>
                  (case Option.bind (numberOf qty)
                          (\<lambda>n. createCartItem d1 (cart_id c) pid n (price p)) of
                     None \<Rightarrow> (Response 500 False (Some ErrorAddingItem) NoData, d1)
                   | Some d2 \<Rightarrow> (cartResponse ItemAdded d2 uid, d2))))"


definition clearCart :: "db \<Rightarrow> nat \<Rightarrow> response \<times> db" where
  "clearCart d uid =
     (case findCart d uid of
        None \<Rightarrow> (Response 404 False (Some CartNotFound) NoData, d)
      | Some c \<Rightarrow>
          (Response 200 True (Some CartCleared) NoData,
           d\<lparr>cartItems := filter (\<lambda>i. cartId i \<noteq> cart_id c) (cartItems d)\<rparr>))"

section \<open>Checkout (orderController.js)\<close>

text \<open>
  A JavaScript number is \<open>Some\<close> of its value, or \<open>None\<close> for \<open>NaN\<close>, which
  \<open>parseFloat\<close> returns on a missing price and which \<open>*\<close> and \<open>+\<close> pass on.
  \<open>parseFloat(item.priceAtAdd)\<close> is the double nearest to the decimal; the quantity, an
  INTEGER, is a double as it is; the product and the sum are rounded again.
\<close>

definition itemTotal :: "cartItem \<Rightarrow> rat option" where
  "itemTotal i =
     map_option (\<lambda>pr. toDouble (toDouble pr * of_int (quantity i))) (priceAtAdd i)"

definition addNumber :: "rat option \<Rightarrow> rat option \<Rightarrow> rat option" where
  "addNumber a b = (case a of None \<Rightarrow> None | Some x \<Rightarrow> map_option (\<lambda>y. toDouble (x + y)) b)"

text \<open>\<open>product.decrement('stock', { by })\<close>: the row's stock column minus \<open>by\<close>,
  computed on the stored value.\<close>

definition decrementStock :: "db \<Rightarrow> nat \<Rightarrow> int \<Rightarrow> db" where
  "decrementStock d pid amount =
     d\<lparr>products :=
         map (\<lambda>r. if product_id r = pid then r\<lparr>stock := stock r - amount\<rparr> else r) (products d)\<rparr>"

text \<open>An entry of the \<open>orderItems\<close> array: product id, quantity, \<open>priceAtPurchase\<close>.\<close>

type_synonym orderLine = "nat \<times> int \<times> rat option"

datatype loopOutcome =
    Thrown
  | OutOfStock string int
  | Validated db "rat option" "orderLine list"

text \<open>
  The loop over \<open>cart.items\<close>. Each item carries the product as the cart query loaded
  it; the stock test reads that copy, the decrement goes to the database. A missing product
  makes \<open>item.product.stock\<close> throw.
\<close>

fun stockLoop ::
  "(cartItem \<times> product option) list \<Rightarrow> db \<Rightarrow> rat option \<Rightarrow> orderLine list \<Rightarrow> loopOutcome"
where
  "stockLoop [] d tot ols = Validated d tot ols"
| "stockLoop ((item, None) # rest) d tot ols = Thrown"
| "stockLoop ((item, Some p) # rest) d tot ols =
     (if stock p < quantity item then OutOfStock (name p) (stock p)
      else stockLoop rest
             (decrementStock d (product_id p) (quantity item))
             (addNumber tot (itemTotal item))
             (ols @ [(productId item, quantity item, priceAtAdd item)]))"

fun createOrderItems :: "nat \<Rightarrow> orderLine list \<Rightarrow> db \<Rightarrow> db" where
  "createOrderItems oid [] d = d"
| "createOrderItems oid ((pid, qty, pr) # rest) d =
     createOrderItems oid rest
       (d\<lparr>orderItems := orderItems d @
            [\<lparr>orderItem_id = orderItemSeq d + 1, orderId = oid, oi_productId = pid,
              oi_quantity = qty, priceAtPurchase = pr\<rparr>],
          orderItemSeq := orderItemSeq d + 1\<rparr>)"

text \<open>
  \<open>placeOrder\<close>. Everything between \<open>sequelize.transaction()\<close> and \<open>t.commit()\<close>
  runs on the transaction: \<open>t.rollback()\<close> gives back the database of the start. The
  paths that roll back do so before any row is created, so no id sequence has moved.
\<close>

definition placeOrder :: "db \<Rightarrow> nat \<Rightarrow> response \<times> db" where
  "placeOrder d userId =
     (case findCart d userId of
        None \<Rightarrow> (Response 400 False (Some CartIsEmpty) NoData, d)
      | Some c \<Rightarrow>
          (let items = snd (cartWithItems d c)
           in if length items = 0 then (Response 400 False (Some CartIsEmpty) NoData, d)
              else case stockLoop items d (Some 0) [] of
                Thrown \<Rightarrow> (Response 500 False (Some ErrorPlacingOrder) NoData, d)
              | OutOfStock n k \<Rightarrow>
                  (Response 400 False (Some (InsufficientStockFor n k)) NoData, d)
              | Validated d1 tot ols \<Rightarrow>
                  (let ord = \<lparr>order_id = orderSeq d1 + 1, order_userId = userId,
                              totalAmount = map_option toFixed2 tot, status = ''pending''\<rparr>;
                       d2 = d1\<lparr>orders := orders d1 @ [ord], orderSeq := orderSeq d1 + 1\<rparr>;
                       d3 = createOrderItems (order_id ord) ols d2;
                       d4 = d3\<lparr>cartItems :=
                                 filter (\<lambda>i. cartId i \<noteq> cart_id c) (cartItems d3)\<rparr>
                   in (Response 201 True (Some OrderPlaced)
                         (OrderData (map_option (orderWithItems d4) (findOrder d4 (order_id ord)))),
                       d4))))"

section \<open>A small shop\<close>

text \<open>
  The data of the repository's order tests: a tablet at 399.99 with 15 in stock, and an
  article whose stock was reduced to 1 after a customer had put 2 into the cart. Customer 2
  has the tablet in the cart and an earlier order; customer 3 holds the overcommitted line;
  customer 4 has no cart.
\<close>

definition tablet :: product where
  "tablet = \<lparr>product_id = 1, name = ''Tablet'', description = Some ''Portable tablet device'',
              price = 39999 / 100, stock = 15, categoryId = Some 1, imageUrl = None\<rparr>"

definition almostGone :: product where
  "almostGone = \<lparr>product_id = 2, name = ''Almost Gone'', description = None,
                  price = 4999 / 100, stock = 1, categoryId = Some 1, imageUrl = None\<rparr>"

definition shop :: db where
  "shop = \<lparr>products = [tablet, almostGone],
            categories = [1],
            carts = [\<lparr>cart_id = 1, cart_userId = 2\<rparr>, \<lparr>cart_id = 2, cart_userId = 3\<rparr>],
            cartItems =
              [\<lparr>item_id = 1, cartId = 1, productId = 1, quantity = 2,
                priceAtAdd = Some (39999 / 100)\<rparr>,
               \<lparr>item_id = 2, cartId = 2, productId = 2, quantity = 2,
                priceAtAdd = Some (4999 / 100)\<rparr>],
            orders =
              [\<lparr>order_id = 1, order_userId = 2, totalAmount = Some (79998 / 100),
                status = ''pending''\<rparr>],
            orderItems =
              [\<lparr>orderItem_id = 1, orderId = 1, oi_productId = 1, oi_quantity = 2,
                priceAtPurchase = Some (39999 / 100)\<rparr>],
            cartSeq = 2, cartItemSeq = 2, orderSeq = 1, orderItemSeq = 1\<rparr>"

text \<open>A depot: bolts at 99999.99 with 2100000000 in stock, of which customer 5 holds
  2000000001 in the cart.\<close>

definition depot :: db where
  "depot = \<lparr>products =
               [\<lparr>product_id = 1, name = ''Bolt'', description = None, price = 9999999 / 100,
                 stock = 2100000000, categoryId = Some 1, imageUrl = None\<rparr>],
             categories = [1],
             carts = [\<lparr>cart_id = 1, cart_userId = 5\<rparr>],
             cartItems =
               [\<lparr>item_id = 1, cartId = 1, productId = 1, quantity = 2000000001,
                 priceAtAdd = Some (9999999 / 100)\<rparr>],
             orders = [], orderItems = [],
             cartSeq = 1, cartItemSeq = 1, orderSeq = 0, orderItemSeq = 0\<rparr>"

text \<open>A price change of the tablet to 499.99, the other columns sent as they are.\<close>

definition raisePrice :: productBody where
  "raisePrice = \<lparr>body_name = Some ''Tablet'', body_description = Some ''Portable tablet device'',
                  body_price = Some (49999 / 100), body_stock = Some 15,
                  body_categoryId = Some 1, body_file = None\<rparr>"

section \<open>Numbers: properties\<close>

lemma roundHalfEven_near: "\<bar>of_int (roundHalfEven y) - y\<bar> \<le> 1 / 2"
proof -
  have "(of_int \<lfloor>y\<rfloor> :: rat) \<le> y" "y < of_int \<lfloor>y\<rfloor> + 1" by linarith+
  then show ?thesis
    unfolding roundHalfEven_def Let_def by (auto simp: abs_if split: if_splits) linarith+
qed

lemma binade_below:
  assumes "x \<noteq> 0"
  shows "(2::rat) powi binade x \<le> \<bar>x\<bar>"
proof -
  obtain a b where q: "quotient_of \<bar>x\<bar> = (a, b)" by (cases "quotient_of \<bar>x\<bar>")
  have b: "0 < b" using q quotient_of_denom_pos by blast
  have ax: "\<bar>x\<bar> = of_int a / of_int b" using q quotient_of_div by blast
  have "0 < \<bar>x\<bar>" using assms by simp
  then have a: "0 < a" using ax b by (simp add: zero_less_divide_iff)
  define k where "k = bitlen a - bitlen b"
  have lo: "(2::int) ^ nat (bitlen a - 1) \<le> a" using bitlen_bounds [OF a] by simp
  have hi: "b < (2::int) ^ nat (bitlen b)" using bitlen_bounds [OF b] by simp
  have ba: "1 \<le> bitlen a" using a bitlen_eq_zero_iff [of a] bitlen_nonneg [of a] by linarith
  have bb: "0 \<le> bitlen b" by (rule bitlen_nonneg)
  have lo': "(2::rat) powi (bitlen a - 1) \<le> of_int a"
  proof -
    have "(of_int ((2::int) ^ nat (bitlen a - 1)) :: rat) \<le> of_int a"
      using lo by (simp only: of_int_le_iff)
    then show ?thesis using ba by (simp add: power_int_def)
  qed
  have hi': "(of_int b :: rat) \<le> 2 powi (bitlen b)"
  proof -
    have "(of_int b :: rat) \<le> of_int ((2::int) ^ nat (bitlen b))"
      using hi by (simp only: of_int_le_iff)
    then show ?thesis using bb by (simp add: power_int_def)
  qed
  have "(2::rat) powi (k - 1) = 2 powi (bitlen a - 1) / 2 powi (bitlen b)"
    unfolding k_def by (simp add: power_int_diff)
  also have "\<dots> \<le> of_int a / 2 powi (bitlen b)"
    using lo' by (simp add: divide_right_mono)
  also have "\<dots> \<le> of_int a / of_int b"
    using hi' a b by (intro divide_left_mono) (auto simp: zero_less_power_int)
  finally have low: "(2::rat) powi (k - 1) \<le> \<bar>x\<bar>" using ax by simp
  show ?thesis
    using low by (simp add: binade_def q k_def Let_def)
qed

lemma toDouble_rel_error: "\<bar>toDouble x - x\<bar> \<le> \<bar>x\<bar> / 2 ^ 53"
proof (cases "x = 0")
  case True
  then show ?thesis by (simp add: toDouble_def)
next
  case False
  define q :: rat where "q = 2 powi (binade x - 52)"
  have qpos: "0 < q" by (simp add: q_def zero_less_power_int)
  have td: "toDouble x = of_int (roundHalfEven (x / q)) * q"
    using False by (simp add: toDouble_def q_def Let_def)
  have "toDouble x - x = (of_int (roundHalfEven (x / q)) - x / q) * q"
    using qpos by (simp add: td algebra_simps)
  then have "\<bar>toDouble x - x\<bar> = \<bar>of_int (roundHalfEven (x / q)) - x / q\<bar> * q"
    using qpos by (simp add: abs_mult)
  also have "\<dots> \<le> 1 / 2 * q"
    using roundHalfEven_near [of "x / q"] qpos by (intro mult_right_mono) auto
  also have "\<dots> = 2 powi binade x / 2 ^ 53"
    by (simp add: q_def power_int_diff)
  also have "\<dots> \<le> \<bar>x\<bar> / 2 ^ 53"
    using binade_below [OF False] by (simp add: divide_right_mono)
  finally show ?thesis .
qed

text \<open>Two known doubles: 0.1, and 99999.99 as \<open>parseFloat\<close> reads it.\<close>

lemma toDouble_examples:
  "toDouble (1 / 10) = 3602879701896397 / 36028797018963968"
  "toDouble (9999999 / 100) = 6871946986405233 / 68719476736"
  "toDouble (1 / 2) = 1 / 2"
  by code_simp+

lemma unitRoundoff_range: "0 < unitRoundoff" "unitRoundoff \<le> 1"
  by (simp_all add: unitRoundoff_def)

lemma toDouble_error: "\<bar>toDouble x - x\<bar> \<le> unitRoundoff * \<bar>x\<bar>"
  using toDouble_rel_error [of x] by (simp add: unitRoundoff_def)

lemma toFixed2_grid: "\<exists>n::int. toFixed2 x = of_int n / 100"
proof (cases "x < 0")
  case True
  then have "toFixed2 x = of_int (- \<lfloor>(- x) * 100 + 1 / 2\<rfloor>) / 100" by (simp add: toFixed2_def)
  then show ?thesis by blast
next
  case False
  then have "toFixed2 x = of_int \<lfloor>x * 100 + 1 / 2\<rfloor> / 100" by (simp add: toFixed2_def)
  then show ?thesis by blast
qed

lemma toFixed2_near_grid:
  assumes "\<bar>t - of_int n / 100\<bar> < 1 / 200"
  shows "toFixed2 t = of_int n / 100"
proof (cases "t < 0")
  case False
  have "\<lfloor>t * 100 + 1 / 2\<rfloor> = n"
    using assms by (intro floor_unique) (auto simp: abs_if field_simps split: if_splits)
  then show ?thesis using False by (simp add: toFixed2_def)
next
  case True
  have "\<lfloor>(- t) * 100 + 1 / 2\<rfloor> = - n"
    using assms by (intro floor_unique) (auto simp: abs_if field_simps split: if_splits)
  then show ?thesis using True by (simp add: toFixed2_def)
qed

lemma itemTotal_error:
  assumes "0 \<le> p" "0 \<le> q"
  shows "\<bar>toDouble (toDouble p * of_int q) - p * of_int q\<bar>
           \<le> 3 * unitRoundoff * (p * of_int q)"
proof -
  define u where "u = unitRoundoff"
  define a where "a = toDouble p"
  define x where "x = p * (of_int q :: rat)"
  define y where "y = a * (of_int q :: rat)"
  have u: "0 < u" "u \<le> 1" using unitRoundoff_range by (simp_all add: u_def)
  have q: "(0::rat) \<le> of_int q" using assms by simp
  have x0: "0 \<le> x" using assms by (simp add: x_def)
  have ea: "\<bar>a - p\<bar> \<le> u * p" using toDouble_error [of p] assms by (simp add: a_def u_def)
  have "y - x = (a - p) * of_int q" by (simp add: x_def y_def algebra_simps)
  then have "\<bar>y - x\<bar> = \<bar>a - p\<bar> * of_int q" using q by (simp add: abs_mult)
  also have "\<dots> \<le> u * p * of_int q" using ea q by (rule mult_right_mono)
  finally have e1: "\<bar>y - x\<bar> \<le> u * x" by (simp add: x_def mult.assoc)
  have "\<bar>y\<bar> \<le> \<bar>y - x\<bar> + \<bar>x\<bar>" by simp
  with e1 x0 have bound: "\<bar>y\<bar> \<le> u * x + x" by simp
  have ux: "0 \<le> u * x" using u x0 by simp
  have "u * (u * x) \<le> 1 * (u * x)" using u ux by (intro mult_right_mono) auto
  then have uux: "u * (u * x) \<le> u * x" by simp
  have "\<bar>toDouble y - y\<bar> \<le> u * \<bar>y\<bar>" using toDouble_error [of y] by (simp add: u_def)
  also have "\<dots> \<le> u * (u * x + x)" using bound u by (intro mult_left_mono) auto
  also have "\<dots> = u * (u * x) + u * x" by (simp add: algebra_simps)
  also have "\<dots> \<le> 2 * (u * x)" using uux by simp
  finally have e2: "\<bar>toDouble y - y\<bar> \<le> 2 * (u * x)" .
  have "\<bar>toDouble y - x\<bar> \<le> \<bar>toDouble y - y\<bar> + \<bar>y - x\<bar>" by simp
  with e1 e2 have "\<bar>toDouble y - x\<bar> \<le> 3 * (u * x)" by linarith
  then show ?thesis by (simp add: a_def x_def y_def u_def mult.assoc)
qed

text \<open>One step of the running total: a total within \<open>k\<close> roundoffs of the exact sum
  \<open>s\<close> stays within \<open>k + 2\<close> roundoffs after a line is added.\<close>

lemma addNumber_error:
  assumes t: "\<bar>t - s\<bar> \<le> k * unitRoundoff * s" and s: "0 \<le> s"
      and m: "\<bar>m - x\<bar> \<le> 3 * unitRoundoff * x" and x: "0 \<le> x"
      and k: "3 \<le> k" "k * unitRoundoff \<le> 1"
    shows "\<bar>toDouble (t + m) - (s + x)\<bar> \<le> (k + 2) * unitRoundoff * (s + x)"
proof -
  define u where "u = unitRoundoff"
  define S where "S = s + x"
  have u: "0 < u" "u \<le> 1" using unitRoundoff_range by (simp_all add: u_def)
  have S0: "0 \<le> S" using s x by (simp add: S_def)
  have ku: "k * u \<le> 1" using k by (simp add: u_def)
  have k0: "0 \<le> k" using k by simp
  have t': "\<bar>t - s\<bar> \<le> k * u * s" using t by (simp add: u_def)
  have m': "\<bar>m - x\<bar> \<le> 3 * u * x" using m by (simp add: u_def)
  have "3 * u * x \<le> k * u * x"
    using k(1) u x by (intro mult_right_mono) auto
  with m' have m'': "\<bar>m - x\<bar> \<le> k * u * x" by linarith
  have "\<bar>(t + m) - S\<bar> \<le> \<bar>t - s\<bar> + \<bar>m - x\<bar>" by (simp add: S_def)
  with t' m'' have "\<bar>(t + m) - S\<bar> \<le> k * u * s + k * u * x" by linarith
  then have D: "\<bar>(t + m) - S\<bar> \<le> k * u * S" by (simp add: S_def algebra_simps)
  have "\<bar>t + m\<bar> \<le> \<bar>(t + m) - S\<bar> + \<bar>S\<bar>" by simp
  with D S0 have B: "\<bar>t + m\<bar> \<le> k * u * S + S" by simp
  have "k * u * S \<le> 1 * S" using ku S0 by (intro mult_right_mono) auto
  with B have B': "\<bar>t + m\<bar> \<le> 2 * S" by simp
  have "\<bar>toDouble (t + m) - (t + m)\<bar> \<le> u * \<bar>t + m\<bar>"
    using toDouble_error [of "t + m"] by (simp add: u_def)
  also have "\<dots> \<le> u * (2 * S)" using B' u by (intro mult_left_mono) auto
  finally have R: "\<bar>toDouble (t + m) - (t + m)\<bar> \<le> 2 * u * S" by simp
  have "\<bar>toDouble (t + m) - S\<bar> \<le> \<bar>toDouble (t + m) - (t + m)\<bar> + \<bar>(t + m) - S\<bar>"
    by simp
  with R D have "\<bar>toDouble (t + m) - S\<bar> \<le> 2 * u * S + k * u * S" by linarith
  then show ?thesis by (simp add: S_def u_def algebra_simps)
qed


section \<open>Order ledger: properties\<close>

text \<open>
  Claim C8. A customer \<open>b\<close> who asks for an order id that exists but belongs to someone
  else gets the very response that a query for an id naming no order gets, in any database:
  404 with the message "Order not found" and no data. The two cases cannot be told apart
  from the response.
\<close>

theorem getOrderById_foreign_same_as_missing:
  assumes "\<exists>ord\<in>set (orders d). order_id ord = oid"
      and "\<forall>ord\<in>set (orders d). order_id ord = oid \<longrightarrow> order_userId ord \<noteq> b"
      and "\<forall>ord\<in>set (orders d2). order_id ord \<noteq> oid2"
    shows "getOrderById d b oid = getOrderById d2 b oid2
           \<and> getOrderById d b oid = Response 404 False (Some OrderNotFound) NoData"
proof -
  have "find (\<lambda>ord. order_id ord = oid \<and> order_userId ord = b) (orders d) = None"
    using assms(2) by (auto simp: find_None_iff)
  moreover have "find (\<lambda>ord. order_id ord = oid2 \<and> order_userId ord = b) (orders d2) = None"
    using assms(3) by (auto simp: find_None_iff)
  ultimately show ?thesis by (simp add: getOrderById_def)
qed

text \<open>In the shop, customer 3 asks for order 1 of customer 2 and for the unknown id 9999;
  the owner gets the order.\<close>

theorem getOrderById_foreign_same_as_missing_witness:
  "map order_userId (filter (\<lambda>ord. order_id ord = 1) (orders shop)) = [2]
   \<and> filter (\<lambda>ord. order_id ord = 9999) (orders shop) = []
   \<and> getOrderById shop 3 1 = getOrderById shop 3 9999
   \<and> getOrderById shop 3 1 = Response 404 False (Some OrderNotFound) NoData
   \<and> statusCode (getOrderById shop 2 1) = 200"
proof -
  have h1: "\<exists>ord\<in>set (orders shop). order_id ord = 1" by (simp add: shop_def)
  have h2: "\<forall>ord\<in>set (orders shop). order_id ord = 1 \<longrightarrow> order_userId ord \<noteq> 3"
    by (simp add: shop_def)
  have h3: "\<forall>ord\<in>set (orders shop). order_id ord \<noteq> 9999" by (simp add: shop_def)
  have h4: "statusCode (getOrderById shop 2 1) = 200"
    by (simp add: getOrderById_def shop_def)
  have h5: "map order_userId (filter (\<lambda>ord. order_id ord = 1) (orders shop)) = [2]"
    by (simp add: shop_def)
  have h6: "filter (\<lambda>ord. order_id ord = 9999) (orders shop) = []"
    by (simp add: shop_def)
  show ?thesis
    using getOrderById_foreign_same_as_missing [OF h1 h2 h3] h4 h5 h6 by blast
qed

lemma findOrder_setStatusRows:
  "find (\<lambda>ord. order_id ord = oid) os = Some ord \<Longrightarrow>
   find (\<lambda>ord. order_id ord = oid) (setStatusRows oid st os) = Some (ord\<lparr>status := st\<rparr>)"
  by (induction os) (auto simp: setStatusRows_def)

lemma setStatusRows_nth:
  "k < length os \<Longrightarrow>
   setStatusRows oid st os ! k =
     (if order_id (os ! k) = oid then (os ! k)\<lparr>status := st\<rparr> else os ! k)"
  by (simp add: setStatusRows_def)

text \<open>
  Claim C9. \<open>updateOrderStatus\<close> on a status outside pending, completed, cancelled
  answers 400 and returns the database as it was, so the order keeps its status. On a valid
  status and an id that names no order it answers 404 and changes nothing. On a valid status
  and an existing order it answers 200; afterwards the order carries the new status, every
  order row keeps its id, owner and \<open>totalAmount\<close>, rows with another id keep their
  status, and the order lines and every other table are the same.
\<close>

theorem updateOrderStatus_overwrites_status_only:
  "(st \<notin> {''pending'', ''completed'', ''cancelled''} \<longrightarrow>
      updateOrderStatus d oid st = (Response 400 False (Some InvalidStatus) NoData, d))
   \<and> (st \<in> {''pending'', ''completed'', ''cancelled''} \<and> findOrder d oid = None \<longrightarrow>
      updateOrderStatus d oid st = (Response 404 False (Some OrderNotFound) NoData, d))
   \<and> (st \<in> {''pending'', ''completed'', ''cancelled''} \<and> findOrder d oid = Some ord \<longrightarrow>
      (\<exists>r d'. updateOrderStatus d oid st = (r, d')
         \<and> statusCode r = 200
         \<and> findOrder d' oid = Some (ord\<lparr>status := st\<rparr>)
         \<and> length (orders d') = length (orders d)
         \<and> (\<forall>k < length (orders d).
               order_id (orders d' ! k) = order_id (orders d ! k)
             \<and> order_userId (orders d' ! k) = order_userId (orders d ! k)
             \<and> totalAmount (orders d' ! k) = totalAmount (orders d ! k)
             \<and> status (orders d' ! k) =
                 (if order_id (orders d ! k) = oid then st else status (orders d ! k)))
         \<and> orderItems d' = orderItems d
         \<and> d' = d\<lparr>orders := orders d'\<rparr>))"
proof (intro conjI impI)
  assume "st \<notin> {''pending'', ''completed'', ''cancelled''}"
  then show "updateOrderStatus d oid st = (Response 400 False (Some InvalidStatus) NoData, d)"
    by (simp add: updateOrderStatus_def validStatuses_def)
next
  assume "st \<in> {''pending'', ''completed'', ''cancelled''} \<and> findOrder d oid = None"
  then show "updateOrderStatus d oid st = (Response 404 False (Some OrderNotFound) NoData, d)"
    by (auto simp add: updateOrderStatus_def validStatuses_def)
next
  assume a: "st \<in> {''pending'', ''completed'', ''cancelled''} \<and> findOrder d oid = Some ord"
  define d' where "d' = d\<lparr>orders := setStatusRows oid st (orders d)\<rparr>"
  have valid: "st \<in> set validStatuses" using a by (auto simp: validStatuses_def)
  have found: "findOrder d' oid = Some (ord\<lparr>status := st\<rparr>)"
    using a by (simp add: d'_def findOrder_def findOrder_setStatusRows)
  define r where "r = Response 200 True (Some OrderStatusUpdated)
         (OrderData (map_option (orderWithItems d') (findOrder d' oid)))"
  have run: "updateOrderStatus d oid st = (r, d')"
    using a valid by (simp add: updateOrderStatus_def d'_def r_def Let_def)
  have code: "statusCode r = 200" by (simp add: r_def)
  have len: "length (orders d') = length (orders d)"
    by (simp add: d'_def setStatusRows_def)
  have rows: "\<forall>k < length (orders d).
               order_id (orders d' ! k) = order_id (orders d ! k)
             \<and> order_userId (orders d' ! k) = order_userId (orders d ! k)
             \<and> totalAmount (orders d' ! k) = totalAmount (orders d ! k)
             \<and> status (orders d' ! k) =
                 (if order_id (orders d ! k) = oid then st else status (orders d ! k))"
    by (simp add: d'_def setStatusRows_nth)
  have rest: "orderItems d' = orderItems d" "d' = d\<lparr>orders := orders d'\<rparr>"
    by (simp_all add: d'_def)
  show "\<exists>r d'. updateOrderStatus d oid st = (r, d')
         \<and> statusCode r = 200
         \<and> findOrder d' oid = Some (ord\<lparr>status := st\<rparr>)
         \<and> length (orders d') = length (orders d)
         \<and> (\<forall>k < length (orders d).
               order_id (orders d' ! k) = order_id (orders d ! k)
             \<and> order_userId (orders d' ! k) = order_userId (orders d ! k)
             \<and> totalAmount (orders d' ! k) = totalAmount (orders d ! k)
             \<and> status (orders d' ! k) =
                 (if order_id (orders d ! k) = oid then st else status (orders d ! k)))
         \<and> orderItems d' = orderItems d
         \<and> d' = d\<lparr>orders := orders d'\<rparr>"
    by (intro exI [of _ r] exI [of _ d'] conjI run code found len rows rest)
qed

text \<open>Order 1 of the shop: "shipped" is refused, "completed" is written, the total and the
  order line stay.\<close>

theorem updateOrderStatus_overwrites_status_only_witness:
  "updateOrderStatus shop 1 ''shipped'' = (Response 400 False (Some InvalidStatus) NoData, shop)
   \<and> updateOrderStatus shop 9999 ''completed''
       = (Response 404 False (Some OrderNotFound) NoData, shop)
   \<and> statusCode (fst (updateOrderStatus shop 1 ''completed'')) = 200
   \<and> orders (snd (updateOrderStatus shop 1 ''completed''))
       = [\<lparr>order_id = 1, order_userId = 2, totalAmount = Some (79998 / 100),
           status = ''completed''\<rparr>]
   \<and> orderItems (snd (updateOrderStatus shop 1 ''completed'')) = orderItems shop"
proof -
  have a: "findOrder shop 9999 = None" by (simp add: findOrder_def shop_def)
  have b: "findOrder shop 1 = Some \<lparr>order_id = 1, order_userId = 2,
      totalAmount = Some (79998 / 100), status = ''pending''\<rparr>"
    by (simp add: findOrder_def shop_def)
  have c: "orders shop = [\<lparr>order_id = 1, order_userId = 2,
      totalAmount = Some (79998 / 100), status = ''pending''\<rparr>]"
    by (simp add: shop_def)
  note t1 = updateOrderStatus_overwrites_status_only [of "''shipped''" shop 1
      "\<lparr>order_id = 1, order_userId = 2, totalAmount = Some (79998 / 100), status = ''pending''\<rparr>"]
  note t2 = updateOrderStatus_overwrites_status_only [of "''completed''" shop 9999
      "\<lparr>order_id = 1, order_userId = 2, totalAmount = Some (79998 / 100), status = ''pending''\<rparr>"]
  note t3 = updateOrderStatus_overwrites_status_only [of "''completed''" shop 1
      "\<lparr>order_id = 1, order_userId = 2, totalAmount = Some (79998 / 100), status = ''pending''\<rparr>"]
  have p1: "updateOrderStatus shop 1 ''shipped'' = (Response 400 False (Some InvalidStatus) NoData, shop)"
    using t1 by simp
  have p2: "updateOrderStatus shop 9999 ''completed''
       = (Response 404 False (Some OrderNotFound) NoData, shop)"
    using t2 a by simp
  from t3 b obtain r d' where run: "updateOrderStatus shop 1 ''completed'' = (r, d')"
     and code: "statusCode r = 200"
     and f: "findOrder d' 1 = Some \<lparr>order_id = 1, order_userId = 2,
      totalAmount = Some (79998 / 100), status = ''completed''\<rparr>"
     and len: "length (orders d') = length (orders shop)"
     and oi: "orderItems d' = orderItems shop"
    by auto
  have "length (orders d') = 1" using len c by simp
  then obtain x where x: "orders d' = [x]"
    by (cases "orders d'") auto
  with f have "orders d' = [\<lparr>order_id = 1, order_userId = 2,
      totalAmount = Some (79998 / 100), status = ''completed''\<rparr>]"
    by (simp add: findOrder_def split: if_splits)
  then show ?thesis using p1 p2 run code oi by simp
qed

text \<open>
  Claim C10. The status is validated before the order is looked up: with a status outside
  pending, completed, cancelled the answer is 400 "Invalid status" for every database and
  every order id, whether or not the id names an order; it is never 404.
\<close>

theorem updateOrderStatus_invalid_before_lookup:
  "st \<notin> {''pending'', ''completed'', ''cancelled''} \<Longrightarrow>
   updateOrderStatus d oid st = (Response 400 False (Some InvalidStatus) NoData, d)
   \<and> statusCode (fst (updateOrderStatus d oid st)) \<noteq> 404"
  by (simp add: updateOrderStatus_def validStatuses_def)

text \<open>The status "invalid-status" on the unknown id 9999 and on the existing order 1; the
  valid status "completed" on the unknown id gives the 404.\<close>

theorem updateOrderStatus_invalid_before_lookup_witness:
  "findOrder shop 9999 = None
   \<and> updateOrderStatus shop 9999 ''invalid-status''
       = (Response 400 False (Some InvalidStatus) NoData, shop)
   \<and> findOrder shop 1 \<noteq> None
   \<and> updateOrderStatus shop 1 ''invalid-status''
       = (Response 400 False (Some InvalidStatus) NoData, shop)
   \<and> fst (updateOrderStatus shop 9999 ''completed'')
       = Response 404 False (Some OrderNotFound) NoData"
proof -
  have inv: "''invalid-status'' \<notin> {''pending'', ''completed'', ''cancelled''}" by simp
  have a: "findOrder shop 9999 = None" by (simp add: findOrder_def shop_def)
  have b: "findOrder shop 1 \<noteq> None" by (simp add: findOrder_def shop_def)
  have c: "fst (updateOrderStatus shop 9999 ''completed'')
       = Response 404 False (Some OrderNotFound) NoData"
    by (simp add: updateOrderStatus_def validStatuses_def a)
  show ?thesis
    using updateOrderStatus_invalid_before_lookup [OF inv, of shop 9999]
      updateOrderStatus_invalid_before_lookup [OF inv, of shop 1] a b c
    by simp
qed

section \<open>Selection: properties\<close>

text \<open>
  Claim C7 as stated fails: customer 4 of the shop has no cart, and \<open>clearCart\<close> answers
  404 "Cart not found" instead of succeeding.
\<close>

theorem clearCart_without_cart_counterexample:
  "findCart shop 4 = None
   \<and> clearCart shop 4 = (Response 404 False (Some CartNotFound) NoData, shop)"
  by (simp add: clearCart_def findCart_def shop_def)

text \<open>
  Claim C7, amended. For a customer who has a cart, \<open>clearCart\<close> answers 200 and deletes
  all lines of that cart and nothing else. For a customer who has no cart it answers 404
  "Cart not found" and changes nothing.
\<close>

theorem clearCart_deletes_lines_or_not_found:
  "(findCart d uid = Some c \<longrightarrow>
      (\<exists>d'. clearCart d uid = (Response 200 True (Some CartCleared) NoData, d')
         \<and> itemsOf d' (cart_id c) = []
         \<and> cartItems d' = filter (\<lambda>i. cartId i \<noteq> cart_id c) (cartItems d)
         \<and> d' = d\<lparr>cartItems := cartItems d'\<rparr>))
   \<and> (findCart d uid = None \<longrightarrow>
      clearCart d uid = (Response 404 False (Some CartNotFound) NoData, d))"
  by (auto simp: clearCart_def itemsOf_def)

theorem clearCart_deletes_lines_or_not_found_witness:
  "findCart shop 2 = Some \<lparr>cart_id = 1, cart_userId = 2\<rparr>
   \<and> itemsOf shop 1 \<noteq> []
   \<and> fst (clearCart shop 2) = Response 200 True (Some CartCleared) NoData
   \<and> itemsOf (snd (clearCart shop 2)) 1 = []
   \<and> findCart shop 4 = None
   \<and> clearCart shop 4 = (Response 404 False (Some CartNotFound) NoData, shop)"
proof -
  have a: "findCart shop 2 = Some \<lparr>cart_id = 1, cart_userId = 2\<rparr>"
    by (simp add: findCart_def shop_def)
  have b: "findCart shop 4 = None" by (simp add: findCart_def shop_def)
  have c: "itemsOf shop 1 \<noteq> []" by (simp add: itemsOf_def shop_def)
  show ?thesis
    using clearCart_deletes_lines_or_not_found [of shop 2 "\<lparr>cart_id = 1, cart_userId = 2\<rparr>"]
      clearCart_deletes_lines_or_not_found [of shop 4 "\<lparr>cart_id = 1, cart_userId = 2\<rparr>"] a b c
    by auto
qed

subsection \<open>Auxiliary facts\<close>

lemma getOrCreateCart_cartItems:
  "getOrCreateCart d uid = (c, d1) \<Longrightarrow>
   cartItems d1 = cartItems d \<and> products d1 = products d \<and> cartItemSeq d1 = cartItemSeq d
   \<and> orders d1 = orders d \<and> orderItems d1 = orderItems d"
  by (auto simp: getOrCreateCart_def Let_def split: option.splits)

lemma find_append_last:
  "find P xs = None \<Longrightarrow> P y \<Longrightarrow> find P (xs @ [y]) = Some y"
  by (induction xs) (auto split: if_splits)

lemma getOrCreateCart_found:
  "getOrCreateCart d uid = (c, d1) \<Longrightarrow> findCart d1 uid = Some c"
  by (auto simp: getOrCreateCart_def findCart_def Let_def find_append_last split: option.splits)

lemma updateProduct_keeps_selection:
  "updateProduct d pid b = (r, d') \<Longrightarrow>
   carts d' = carts d \<and> cartItems d' = cartItems d \<and> orders d' = orders d
   \<and> orderItems d' = orderItems d"
  by (auto simp: updateProduct_def Let_def split: option.splits if_splits uploadResult.splits)

lemma catalogUpdates_keeps_selection:
  "carts (catalogUpdates d ups) = carts d \<and> cartItems (catalogUpdates d ups) = cartItems d
   \<and> orders (catalogUpdates d ups) = orders d
   \<and> orderItems (catalogUpdates d ups) = orderItems d"
proof (induction d ups rule: catalogUpdates.induct)
  case (1 d)
  then show ?case by simp
next
  case (2 d pid b rest)
  obtain r d' where u: "updateProduct d pid b = (r, d')" by (cases "updateProduct d pid b")
  with 2 updateProduct_keeps_selection [OF u] show ?case by simp
qed

lemma filter_map_none:
  "\<forall>x\<in>set xs. \<not> P x \<Longrightarrow> (\<And>x. P (f x) = P x) \<Longrightarrow> filter P (map f xs) = []"
  by (induction xs) auto



lemma raised_price_stored: "storeDecimal2 (49999 / 100) = 49999 / 100"
  using toFixed2_near_grid [of "49999 / 100" 49999] by (simp add: storeDecimal2_def)

lemmas shop_eval =
  addToCart_def getOrCreateCart_def findCart_def findCartItem_def findProduct_def
  createCartItem_def saveCartItem_def saveNewQuantity_def cartResponse_def
  numberOf_def plusValue_def lessThanValue_def
  updateProduct_def categoryMissing_def violatesCategoryKey_def
  applyBody_def orElse_def raised_price_stored cartWithItems_def itemsOf_def
  shop_def tablet_def almostGone_def raisePrice_def Let_def



text \<open>
  Claim C3, at an input where the code departs from it. "Almost Gone" has 1 in stock and
  the cart of customer 2 has no line for it. The claim asks that adding 50 fail and leave
  the selection as it is; \<open>addToCart\<close> answers 200 and appends a line with quantity 50
  at the current price 49.99. The comparison with the stock is made only on the branch of an
  existing line, as it is in \<open>updateCartItem\<close>.
\<close>

theorem addToCart_new_line_ignores_stock:
  "findProduct shop 2 = Some almostGone
   \<and> stock almostGone = 1
   \<and> getOrCreateCart shop 2 = (\<lparr>cart_id = 1, cart_userId = 2\<rparr>, shop)
   \<and> findCartItem shop 1 2 = None
   \<and> statusCode (fst (addToCart shop 2 2 (JsNumber 50))) = 200
   \<and> cartItems (snd (addToCart shop 2 2 (JsNumber 50)))
       = cartItems shop @ [\<lparr>item_id = 3, cartId = 1, productId = 2, quantity = 50,
                             priceAtAdd = Some (4999 / 100)\<rparr>]"
  by (simp add: shop_eval)

text \<open>
  Claim C5, at an input where the code departs from it. The route's \<open>isInt\<close> accepts the
  string "2" as a quantity and hands it on as a string. Customer 3 of the shop adds the
  number 1 of the tablet (15 in stock) and then the string "2": the claim asks for one line
  of quantity 3; \<open>cartItem.quantity + quantity\<close> is the text "12", and the line ends
  with quantity 12. After the number 2, the string "3" gives "23", which exceeds the stock:
  the answer is 400 although 2 + 3 is within it.
\<close>

theorem addToCart_string_quantity_is_appended:
  "numberOf (JsString ''2'') = Some 2
   \<and> statusCode (fst (addToCart shop 3 1 (JsNumber 1))) = 200
   \<and> statusCode (fst (addToCart (snd (addToCart shop 3 1 (JsNumber 1))) 3 1 (JsString ''2'')))
       = 200
   \<and> map quantity
         (filter (\<lambda>i. cartId i = 2 \<and> productId i = 1)
           (cartItems (snd (addToCart (snd (addToCart shop 3 1 (JsNumber 1))) 3 1
              (JsString ''2'')))))
       = [12]
   \<and> numberOf (JsString ''3'') = Some 3
   \<and> fst (addToCart (snd (addToCart shop 3 1 (JsNumber 2))) 3 1 (JsString ''3''))
       = Response 400 False (Some (CannotAddMore 15)) NoData"
  by code_simp

text \<open>
  Quantities sent as JSON numbers. Let the customer's cart have no line for product
  \<open>pid\<close>, whose price is that of \<open>p0\<close>. A first \<open>addToCart\<close> with the number
  \<open>q1\<close> succeeds, then any run of catalog updates follows (so the price and stock of the
  product may change; \<open>p2\<close> is the product afterwards), then a second \<open>addToCart\<close>
  with the number \<open>q2\<close>.
  \<^item> If the second call succeeds, then \<open>q1 + q2\<close> is within the stock and the customer's
    cart, still the same, holds exactly one line for the product, with quantity
    \<open>q1 + q2\<close> and the price of the first add.
  \<^item> It does succeed when \<open>q1 + q2\<close> is within the stock and \<open>q2\<close> is at least 1.
  \<^item> If \<open>q1 + q2\<close> exceeds the stock, the answer is 400 "Cannot add more items" carrying
    the stock, the database is unchanged, and the one line still has quantity \<open>q1\<close> and
    the first price.
\<close>

theorem addToCart_twice_numbers:
  assumes prod0: "findProduct d0 pid = Some p0"
      and cart: "getOrCreateCart d0 uid = (c, dc)"
      and fresh: "findCartItem dc (cart_id c) pid = None"
      and add1: "addToCart d0 uid pid (JsNumber q1) = (r1, d1)"
      and ok1: "statusCode r1 = 200"
      and upd: "d2 = catalogUpdates d1 ups"
      and prod2: "findProduct d2 pid = Some p2"
      and add2: "addToCart d2 uid pid (JsNumber q2) = (r2, d3)"
    shows "(statusCode r2 = 200 \<longrightarrow>
             q1 + q2 \<le> stock p2
             \<and> findCart d3 uid = Some c
             \<and> (\<exists>ln. filter (\<lambda>i. cartId i = cart_id c \<and> productId i = pid) (cartItems d3) = [ln]
                  \<and> quantity ln = q1 + q2 \<and> priceAtAdd ln = Some (price p0)))
         \<and> (q1 + q2 \<le> stock p2 \<and> 1 \<le> q2 \<longrightarrow> statusCode r2 = 200)
         \<and> (stock p2 < q1 + q2 \<longrightarrow>
             r2 = Response 400 False (Some (CannotAddMore (stock p2))) NoData
             \<and> d3 = d2
             \<and> findCart d3 uid = Some c
             \<and> (\<exists>ln. filter (\<lambda>i. cartId i = cart_id c \<and> productId i = pid) (cartItems d3) = [ln]
                  \<and> quantity ln = q1 \<and> priceAtAdd ln = Some (price p0)))"
proof -
  let ?match = "\<lambda>i. cartId i = cart_id c \<and> productId i = pid"
  define ln0 where "ln0 = \<lparr>item_id = cartItemSeq dc + 1, cartId = cart_id c, productId = pid,
                       quantity = q1, priceAtAdd = Some (price p0)\<rparr>"
  have m0: "?match ln0" by (simp add: ln0_def)
  have none: "\<forall>x\<in>set (cartItems dc). \<not> ?match x"
    using fresh by (simp add: findCartItem_def find_None_iff)
  have q1pos: "1 \<le> q1"
    using add1 ok1 prod0 cart fresh
    by (auto simp: addToCart_def createCartItem_def numberOf_def split: if_splits)
  have d1: "d1 = dc\<lparr>cartItems := cartItems dc @ [ln0], cartItemSeq := cartItemSeq dc + 1\<rparr>"
    using add1 ok1 prod0 cart fresh q1pos
    by (auto simp: addToCart_def createCartItem_def numberOf_def ln0_def split: if_splits)
  have items2: "cartItems d2 = cartItems dc @ [ln0]"
    using upd d1 catalogUpdates_keeps_selection [of d1 ups] by simp
  have cart2: "getOrCreateCart d2 uid = (c, d2)"
    using upd d1 catalogUpdates_keeps_selection [of d1 ups] getOrCreateCart_found [OF cart]
    by (simp add: getOrCreateCart_def findCart_def)
  have line2: "findCartItem d2 (cart_id c) pid = Some ln0"
    using fresh m0 items2 by (simp add: findCartItem_def find_append_last)
  have before: "filter ?match (cartItems d2) = [ln0]"
    using none items2 m0 by simp
  have vals: "quantity ln0 = q1" "priceAtAdd ln0 = Some (price p0)"
    by (simp_all add: ln0_def)
  have owner2: "findCart d2 uid = Some c"
    using upd d1 catalogUpdates_keeps_selection [of d1 ups] getOrCreateCart_found [OF cart]
    by (simp add: findCart_def)
  note js = plusValue_def lessThanValue_def numberOf_def saveNewQuantity_def
  show ?thesis
  proof (cases "stock p2 < q1 + q2")
    case True
    then have "r2 = Response 400 False (Some (CannotAddMore (stock p2))) NoData \<and> d3 = d2"
      using add2 prod2 cart2 line2 vals by (auto simp: addToCart_def js Let_def)
    then show ?thesis using True before vals owner2 by auto
  next
    case False
    show ?thesis
    proof (cases "q1 + q2 \<noteq> q1 \<and> q1 + q2 < 1")
      case True
      then have "statusCode r2 = 500"
        using add2 prod2 cart2 line2 vals False
        by (auto simp: addToCart_def saveCartItem_def js Let_def)
      then show ?thesis using False True q1pos by auto
    next
      case ok: False
      define f :: "cartItem \<Rightarrow> cartItem" where
        "f = (\<lambda>r. if item_id r = item_id ln0 then r\<lparr>quantity := q1 + q2\<rparr> else r)"
      have sv: "saveCartItem d2 ln0 (q1 + q2) None = Some (d2\<lparr>cartItems := map f (cartItems d2)\<rparr>)"
        using ok vals by (auto simp: saveCartItem_def f_def)
      have run: "addToCart d2 uid pid (JsNumber q2) =
          (cartResponse ItemAdded (d2\<lparr>cartItems := map f (cartItems d2)\<rparr>) uid,
           d2\<lparr>cartItems := map f (cartItems d2)\<rparr>)"
        using prod2 cart2 line2 vals False sv by (simp add: addToCart_def js Let_def)
      have d3: "d3 = d2\<lparr>cartItems := map f (cartItems d2)\<rparr>" and code: "statusCode r2 = 200"
        using add2 run by (auto simp: cartResponse_def)
      have fm: "\<And>x. ?match (f x) = ?match x" by (simp add: f_def)
      have "filter ?match (map f (cartItems dc)) = []"
        using none fm by (intro filter_map_none) auto
      then have "filter ?match (cartItems d3) = [f ln0]"
        using d3 items2 m0 fm by simp
      moreover have "quantity (f ln0) = q1 + q2" "priceAtAdd (f ln0) = Some (price p0)"
        by (simp_all add: f_def ln0_def)
      moreover have "findCart d3 uid = Some c" using d3 owner2 by (simp add: findCart_def)
      ultimately show ?thesis using False code by auto
    qed
  qed
qed

text \<open>Customer 3 adds 2 tablets at 399.99, the price is raised to 499.99, then 3 more are
  added (5 in the line, still at 399.99), or 14 more (refused, 15 in stock).\<close>

theorem addToCart_twice_numbers_example:
  "price tablet = 39999 / 100
   \<and> map price (filter (\<lambda>p. product_id p = 1)
         (products (catalogUpdates (snd (addToCart shop 3 1 (JsNumber 2))) [(1, raisePrice)])))
       = [49999 / 100]
   \<and> statusCode (fst (addToCart
         (catalogUpdates (snd (addToCart shop 3 1 (JsNumber 2))) [(1, raisePrice)]) 3 1 (JsNumber 3))) = 200
   \<and> map (\<lambda>i. (quantity i, priceAtAdd i))
         (filter (\<lambda>i. cartId i = 2 \<and> productId i = 1)
           (cartItems (snd (addToCart
              (catalogUpdates (snd (addToCart shop 3 1 (JsNumber 2))) [(1, raisePrice)]) 3 1 (JsNumber 3)))))
       = [(5, Some (39999 / 100))]
   \<and> fst (addToCart (catalogUpdates (snd (addToCart shop 3 1 (JsNumber 2))) [(1, raisePrice)]) 3 1 (JsNumber 14))
       = Response 400 False (Some (CannotAddMore 15)) NoData
   \<and> map (\<lambda>i. (quantity i, priceAtAdd i))
         (filter (\<lambda>i. cartId i = 2 \<and> productId i = 1)
           (cartItems (snd (addToCart
              (catalogUpdates (snd (addToCart shop 3 1 (JsNumber 2))) [(1, raisePrice)]) 3 1 (JsNumber 14)))))
       = [(2, Some (39999 / 100))]"
proof -
  let ?c = "\<lparr>cart_id = 2, cart_userId = 3\<rparr>"
  define r1 where "r1 = fst (addToCart shop 3 1 (JsNumber 2))"
  define d1 where "d1 = snd (addToCart shop 3 1 (JsNumber 2))"
  define d2 where "d2 = catalogUpdates d1 [(1, raisePrice)]"
  define p2 where "p2 = tablet\<lparr>price := 49999 / 100\<rparr>"
  have prod0: "findProduct shop 1 = Some tablet" by (simp add: findProduct_def shop_def tablet_def)
  have cart: "getOrCreateCart shop 3 = (?c, shop)"
    by (simp add: getOrCreateCart_def findCart_def shop_def)
  have fresh: "findCartItem shop (cart_id ?c) 1 = None" by (simp add: findCartItem_def shop_def)
  have add1: "addToCart shop 3 1 (JsNumber 2) = (r1, d1)" by (simp add: r1_def d1_def)
  have ok1: "statusCode r1 = 200" unfolding r1_def by (simp add: shop_eval)
  have prods1: "products d1 = [tablet, almostGone]" "categories d1 = [1]"
    unfolding d1_def by (simp_all add: shop_eval)
  have prods2: "products d2 = [p2, almostGone]"
    unfolding d2_def p2_def using prods1 by (simp add: shop_eval)
  have prod2: "findProduct d2 1 = Some p2"
    using prods2 by (simp add: findProduct_def p2_def tablet_def)
  have vals: "price tablet = 39999 / 100" "stock p2 = 15" "price p2 = 49999 / 100"
    by (simp_all add: tablet_def p2_def)
  obtain r2 d3 where add2: "addToCart d2 3 1 (JsNumber 3) = (r2, d3)"
    by (cases "addToCart d2 3 1 (JsNumber 3)")
  obtain r2' d3' where add2': "addToCart d2 3 1 (JsNumber 14) = (r2', d3')"
    by (cases "addToCart d2 3 1 (JsNumber 14)")
  note good = addToCart_twice_numbers
     [OF prod0 cart fresh add1 ok1 d2_def prod2 add2]
  note bad = addToCart_twice_numbers
     [OF prod0 cart fresh add1 ok1 d2_def prod2 add2']
  from good vals have g: "statusCode r2 = 200"
    "\<exists>ln. filter (\<lambda>i. cartId i = 2 \<and> productId i = 1) (cartItems d3) = [ln]
        \<and> quantity ln = 5 \<and> priceAtAdd ln = Some (39999 / 100)"
    by auto
  from bad vals have b: "r2' = Response 400 False (Some (CannotAddMore 15)) NoData"
    "\<exists>ln. filter (\<lambda>i. cartId i = 2 \<and> productId i = 1) (cartItems d3') = [ln]
        \<and> quantity ln = 2 \<and> priceAtAdd ln = Some (39999 / 100)"
    by auto
  have "map price (filter (\<lambda>p. product_id p = 1) (products d2)) = [49999 / 100]"
    using prods2 by (simp add: p2_def tablet_def almostGone_def)
  then show ?thesis
    using g b vals(1) add2 add2' unfolding d2_def d1_def by auto
qed

section \<open>Checkout: properties\<close>

subsection \<open>The loop and the rows it creates\<close>

lemma stockLoop_Validated:
  "stockLoop items d tot ols = Validated d1 t ols' \<Longrightarrow>
   ols' = ols @ map (\<lambda>ip. (productId (fst ip), quantity (fst ip), priceAtAdd (fst ip))) items
   \<and> t = foldl addNumber tot (map (\<lambda>ip. itemTotal (fst ip)) items)
   \<and> d1 = d\<lparr>products := products d1\<rparr>"
proof (induction items d tot ols rule: stockLoop.induct)
  case (1 d tot ols)
  then show ?case by simp
next
  case (2 item rest d tot ols)
  then show ?case by simp
next
  case (3 item p rest d tot ols)
  then show ?case by (auto simp: decrementStock_def split: if_splits)
qed

lemma stockLoop_in_stock:
  "\<forall>ip\<in>set items. \<exists>p. snd ip = Some p \<and> product_id p = productId (fst ip)
       \<and> quantity (fst ip) \<le> stock p \<Longrightarrow>
   \<exists>d1 t ols'. stockLoop items d tot ols = Validated d1 t ols'
     \<and> products d1 =
         map (\<lambda>r. r\<lparr>stock := stock r
                - sum_list (map (\<lambda>ip. quantity (fst ip))
                    (filter (\<lambda>ip. productId (fst ip) = product_id r) items))\<rparr>)
           (products d)"
proof (induction items d tot ols rule: stockLoop.induct)
  case (1 d tot ols)
  then show ?case by (simp add: map_idI)
next
  case (2 item rest d tot ols)
  then show ?case by simp
next
  case (3 item p rest d tot ols)
  then have ok: "\<not> stock p < quantity item" and pid: "product_id p = productId item"
    and rest: "\<forall>ip\<in>set rest. \<exists>p. snd ip = Some p \<and> product_id p = productId (fst ip)
       \<and> quantity (fst ip) \<le> stock p"
    by auto
  from 3(1) [OF ok rest] obtain d1 t ols' where
    run: "stockLoop rest (decrementStock d (product_id p) (quantity item))
            (addNumber tot (itemTotal item))
            (ols @ [(productId item, quantity item, priceAtAdd item)]) = Validated d1 t ols'"
    and prods: "products d1 =
         map (\<lambda>r. r\<lparr>stock := stock r
                - sum_list (map (\<lambda>ip. quantity (fst ip))
                    (filter (\<lambda>ip. productId (fst ip) = product_id r) rest))\<rparr>)
           (products (decrementStock d (product_id p) (quantity item)))"
    by blast
  have "products d1 =
         map (\<lambda>r. r\<lparr>stock := stock r
                - sum_list (map (\<lambda>ip. quantity (fst ip))
                    (filter (\<lambda>ip. productId (fst ip) = product_id r) ((item, Some p) # rest)))\<rparr>)
           (products d)"
    unfolding prods using pid by (auto simp: decrementStock_def)
  then show ?case using run ok by simp
qed

lemma stockLoop_short:
  "\<forall>ip\<in>set items. snd ip \<noteq> None \<Longrightarrow>
   \<exists>ip\<in>set items. \<exists>p. snd ip = Some p \<and> stock p < quantity (fst ip) \<Longrightarrow>
   \<exists>ip\<in>set items. \<exists>p. snd ip = Some p \<and> stock p < quantity (fst ip)
      \<and> stockLoop items d tot ols = OutOfStock (name p) (stock p)"
proof (induction items d tot ols rule: stockLoop.induct)
  case (1 d tot ols)
  then show ?case by simp
next
  case (2 item rest d tot ols)
  then show ?case by simp
next
  case (3 item p rest d tot ols)
  show ?case
  proof (cases "stock p < quantity item")
    case True
    then show ?thesis by auto
  next
    case False
    with 3(2,3) have "\<forall>ip\<in>set rest. snd ip \<noteq> None"
      "\<exists>ip\<in>set rest. \<exists>p. snd ip = Some p \<and> stock p < quantity (fst ip)"
      by auto
    from 3(1) [OF False this] False show ?thesis by auto
  qed
qed

lemma createOrderItems_appends:
  "\<exists>new. orderItems (createOrderItems oid ols d) = orderItems d @ new
     \<and> map (\<lambda>oi. (orderId oi, oi_productId oi, oi_quantity oi, priceAtPurchase oi)) new
         = map (\<lambda>ol. (oid, ol)) ols
     \<and> products (createOrderItems oid ols d) = products d
     \<and> carts (createOrderItems oid ols d) = carts d
     \<and> cartItems (createOrderItems oid ols d) = cartItems d
     \<and> orders (createOrderItems oid ols d) = orders d"
proof (induction oid ols d rule: createOrderItems.induct)
  case (1 oid d)
  then show ?case by simp
next
  case (2 oid pid qty pr rest d)
  then show ?case by auto
qed

lemma total_error:
  assumes lines: "\<forall>i\<in>set ls. \<exists>pr. priceAtAdd i = Some pr \<and> 0 \<le> pr \<and> 0 \<le> quantity i"
      and t: "\<bar>t - s\<bar> \<le> k * unitRoundoff * s" and s: "0 \<le> s"
      and k: "3 \<le> k" "(k + 2 * of_nat (length ls)) * unitRoundoff \<le> 1"
    shows "\<exists>t'. foldl addNumber (Some t) (map itemTotal ls) = Some t'
             \<and> \<bar>t' - (s + sum_list (map (\<lambda>i. the (priceAtAdd i) * of_int (quantity i)) ls))\<bar>
                 \<le> (k + 2 * of_nat (length ls)) * unitRoundoff
                    * (s + sum_list (map (\<lambda>i. the (priceAtAdd i) * of_int (quantity i)) ls))"
  using assms
proof (induction ls arbitrary: t s k)
  case Nil
  then show ?case by simp
next
  case (Cons i ls)
  from Cons.prems(1) obtain pr where pr: "priceAtAdd i = Some pr" "0 \<le> pr" "0 \<le> quantity i"
    by auto
  define x where "x = pr * (of_int (quantity i) :: rat)"
  define m where "m = toDouble (toDouble pr * of_int (quantity i))"
  have x0: "0 \<le> x" using pr by (simp add: x_def)
  have m: "\<bar>m - x\<bar> \<le> 3 * unitRoundoff * x"
    using itemTotal_error [OF pr(2,3)] by (simp add: m_def x_def)
  have u: "0 < unitRoundoff" by (rule unitRoundoff_range)
  have "k * unitRoundoff \<le> (k + 2 * of_nat (length (i # ls))) * unitRoundoff"
    using u by (intro mult_right_mono) auto
  with Cons.prems(5) have ku: "k * unitRoundoff \<le> 1" by linarith
  have step: "\<bar>toDouble (t + m) - (s + x)\<bar> \<le> (k + 2) * unitRoundoff * (s + x)"
    by (rule addNumber_error [OF Cons.prems(2,3) m x0 Cons.prems(4) ku])
  have rest: "\<forall>j\<in>set ls. \<exists>pr. priceAtAdd j = Some pr \<and> 0 \<le> pr \<and> 0 \<le> quantity j"
    using Cons.prems(1) by simp
  have k2: "3 \<le> k + 2" using Cons.prems(4) by simp
  have room: "(k + 2 + 2 * of_nat (length ls)) * unitRoundoff \<le> 1"
    using Cons.prems(5) by (simp add: algebra_simps)
  have sx: "0 \<le> s + x" using Cons.prems(3) x0 by simp
  from Cons.IH [OF rest step sx k2 room] obtain t' where
    t': "foldl addNumber (Some (toDouble (t + m))) (map itemTotal ls) = Some t'"
    and e: "\<bar>t' - (s + x + sum_list (map (\<lambda>i. the (priceAtAdd i) * of_int (quantity i)) ls))\<bar>
             \<le> (k + 2 + 2 * of_nat (length ls)) * unitRoundoff
                * (s + x + sum_list (map (\<lambda>i. the (priceAtAdd i) * of_int (quantity i)) ls))"
    by blast
  have run: "foldl addNumber (Some t) (map itemTotal (i # ls)) = Some t'"
    using t' pr by (simp add: addNumber_def itemTotal_def m_def)
  have shape: "s + sum_list (map (\<lambda>i. the (priceAtAdd i) * of_int (quantity i)) (i # ls))
             = s + x + sum_list (map (\<lambda>i. the (priceAtAdd i) * of_int (quantity i)) ls)"
    using pr by (simp add: x_def)
  have count: "k + 2 * of_nat (length (i # ls)) = k + 2 + 2 * of_nat (length ls)"
    by simp
  show ?case unfolding shape count using run e by blast
qed

lemma total_some:
  "\<forall>i\<in>set ls. priceAtAdd i \<noteq> None \<Longrightarrow>
   \<exists>t'. foldl addNumber (Some t) (map itemTotal ls) = Some t'"
proof (induction ls arbitrary: t)
  case Nil
  then show ?case by simp
next
  case (Cons i ls)
  then obtain pr where "priceAtAdd i = Some pr" by auto
  with Cons show ?case by (simp add: addNumber_def itemTotal_def)
qed

lemma exact_total_grid:
  "\<forall>i\<in>set ls. \<exists>m::int. the (priceAtAdd i) = of_int m / 100 \<Longrightarrow>
   \<exists>n::int. sum_list (map (\<lambda>i. the (priceAtAdd i) * of_int (quantity i)) ls) = of_int n / 100"
proof (induction ls)
  case Nil
  have "(0::rat) = of_int 0 / 100" by simp
  then show ?case by (simp del: of_int_0)
next
  case (Cons i ls)
  then obtain m n :: int where m: "the (priceAtAdd i) = of_int m / 100"
    and n: "sum_list (map (\<lambda>i. the (priceAtAdd i) * of_int (quantity i)) ls) = of_int n / 100"
    by auto
  have "sum_list (map (\<lambda>i. the (priceAtAdd i) * of_int (quantity i)) (i # ls))
      = of_int (m * quantity i + n) / 100"
    using m n by (simp add: field_simps)
  then show ?case by blast
qed

text \<open>The total of a priced cart whose exact sum is small enough for doubles.\<close>

lemma total_exact:
  assumes lines: "\<forall>i\<in>set ls. \<exists>pr. priceAtAdd i = Some pr \<and> 0 \<le> pr \<and> 0 \<le> quantity i"
      and grid: "\<forall>i\<in>set ls. \<exists>m::int. the (priceAtAdd i) = of_int m / 100"
      and small: "(2 * of_nat (length ls) + 3)
                    * (200 * sum_list (map (\<lambda>i. the (priceAtAdd i) * of_int (quantity i)) ls) + 1)
                  < (2::rat) ^ 53"
    shows "map_option toFixed2 (foldl addNumber (Some 0) (map itemTotal ls))
             = Some (sum_list (map (\<lambda>i. the (priceAtAdd i) * of_int (quantity i)) ls))"
proof -
  define S where "S = sum_list (map (\<lambda>i. the (priceAtAdd i) * of_int (quantity i)) ls)"
  define c :: rat where "c = 2 * of_nat (length ls) + 3"
  have S0: "0 \<le> S"
    unfolding S_def using lines by (intro sum_list_nonneg) auto
  have c3: "3 \<le> c" by (simp add: c_def)
  have small': "c * (200 * S + 1) < 2 ^ 53" using small by (simp add: S_def c_def)
  have "c * 1 \<le> c * (200 * S + 1)" using c3 S0 by (intro mult_left_mono) auto
  with small' have c_lt: "c < 2 ^ 53" by simp
  have cu: "c * unitRoundoff \<le> 1" using c_lt by (simp add: unitRoundoff_def field_simps)
  have "c * (200 * S) \<le> c * (200 * S + 1)" using c3 by (intro mult_left_mono) auto
  with small' have "c * (200 * S) < 2 ^ 53" by linarith
  then have cS: "c * unitRoundoff * S < 1 / 200" by (simp add: unitRoundoff_def field_simps)
  have start: "\<bar>(0::rat) - 0\<bar> \<le> 3 * unitRoundoff * 0" by simp
  have room: "(3 + 2 * of_nat (length ls)) * unitRoundoff \<le> 1"
    using cu by (simp add: c_def add.commute)
  from total_error [OF lines start _ _ room] obtain t' where
    run: "foldl addNumber (Some 0) (map itemTotal ls) = Some t'"
    and err: "\<bar>t' - (0 + S)\<bar> \<le> (3 + 2 * of_nat (length ls)) * unitRoundoff * (0 + S)"
    unfolding S_def by auto
  have "\<bar>t' - S\<bar> \<le> c * unitRoundoff * S" using err by (simp add: c_def add.commute)
  with cS have near: "\<bar>t' - S\<bar> < 1 / 200" by linarith
  from exact_total_grid [OF grid] obtain n :: int where n: "S = of_int n / 100"
    unfolding S_def by blast
  have "toFixed2 t' = S" using toFixed2_near_grid [of t' n] near n by simp
  then show ?thesis using run by (simp add: S_def)
qed

lemma joined_lines:
  "snd (cartWithItems d c) = map (\<lambda>i. (i, findProduct d (productId i))) (itemsOf d (cart_id c))"
  by (simp add: cartWithItems_def)

lemma findProduct_id: "findProduct d pid = Some p \<Longrightarrow> product_id p = pid"
  by (auto simp: findProduct_def find_Some_iff)

text \<open>What a checkout that answers 201 has written.\<close>

lemma placeOrder_created:
  assumes cart: "findCart d uid = Some c"
      and run: "placeOrder d uid = (r, d')"
      and code: "statusCode r = 201"
    shows "\<exists>d1 ord new.
             stockLoop (snd (cartWithItems d c)) d (Some 0) [] = Validated d1
               (foldl addNumber (Some 0) (map itemTotal (itemsOf d (cart_id c))))
               (map (\<lambda>i. (productId i, quantity i, priceAtAdd i)) (itemsOf d (cart_id c)))
           \<and> d1 = d\<lparr>products := products d1\<rparr>
           \<and> products d' = products d1
           \<and> orders d' = orders d @ [ord]
           \<and> order_userId ord = uid \<and> status ord = ''pending''
           \<and> totalAmount ord = map_option toFixed2
                 (foldl addNumber (Some 0) (map itemTotal (itemsOf d (cart_id c))))
           \<and> orderItems d' = orderItems d @ new
           \<and> map (\<lambda>oi. (orderId oi, oi_productId oi, oi_quantity oi, priceAtPurchase oi)) new
               = map (\<lambda>i. (order_id ord, productId i, quantity i, priceAtAdd i))
                   (itemsOf d (cart_id c))
           \<and> cartItems d' = filter (\<lambda>i. cartId i \<noteq> cart_id c) (cartItems d)
           \<and> carts d' = carts d"
proof -
  let ?items = "snd (cartWithItems d c)"
  let ?ls = "itemsOf d (cart_id c)"
  from cart run code obtain d1 t ols where
    loop: "stockLoop ?items d (Some 0) [] = Validated d1 t ols"
    by (auto simp: placeOrder_def Let_def split: if_splits loopOutcome.splits)
  from stockLoop_Validated [OF loop] have
    ols: "ols = map (\<lambda>i. (productId i, quantity i, priceAtAdd i)) ?ls"
    and t: "t = foldl addNumber (Some 0) (map itemTotal ?ls)"
    and d1: "d1 = d\<lparr>products := products d1\<rparr>"
    by (simp_all add: joined_lines comp_def)
  define ord where "ord = \<lparr>order_id = orderSeq d1 + 1, order_userId = uid,
                          totalAmount = map_option toFixed2 t, status = ''pending''\<rparr>"
  define d2 where "d2 = d1\<lparr>orders := orders d1 @ [ord], orderSeq := orderSeq d1 + 1\<rparr>"
  define d3 where "d3 = createOrderItems (order_id ord) ols d2"
  have d': "d' = d3\<lparr>cartItems := filter (\<lambda>i. cartId i \<noteq> cart_id c) (cartItems d3)\<rparr>"
    using cart run code loop
    by (auto simp: placeOrder_def Let_def ord_def d2_def d3_def split: if_splits)
  from createOrderItems_appends [of "order_id ord" ols d2] obtain new where
    new: "orderItems d3 = orderItems d2 @ new"
      "map (\<lambda>oi. (orderId oi, oi_productId oi, oi_quantity oi, priceAtPurchase oi)) new
         = map (\<lambda>ol. (order_id ord, ol)) ols"
    and same: "products d3 = products d2" "carts d3 = carts d2" "cartItems d3 = cartItems d2"
      "orders d3 = orders d2"
    unfolding d3_def by blast
  have base: "orders d1 = orders d" "orderItems d1 = orderItems d" "cartItems d1 = cartItems d"
    "carts d1 = carts d"
    by (subst d1, simp)+
  have "orders d' = orders d @ [ord]" using d' same base by (simp add: d2_def)
  moreover have "orderItems d' = orderItems d @ new" using d' new base by (simp add: d2_def)
  moreover have "map (\<lambda>oi. (orderId oi, oi_productId oi, oi_quantity oi, priceAtPurchase oi)) new
               = map (\<lambda>i. (order_id ord, productId i, quantity i, priceAtAdd i)) ?ls"
    using new(2) ols by simp
  moreover have "cartItems d' = filter (\<lambda>i. cartId i \<noteq> cart_id c) (cartItems d)"
    using d' same base by (simp add: d2_def)
  moreover have "carts d' = carts d" "products d' = products d1"
    using d' same base by (simp_all add: d2_def)
  moreover have "order_userId ord = uid" "status ord = ''pending''"
    "totalAmount ord = map_option toFixed2 (foldl addNumber (Some 0) (map itemTotal ?ls))"
    using t by (simp_all add: ord_def)
  ultimately show ?thesis using loop ols t d1 by blast
qed

lemmas checkout_eval =
  placeOrder_def stockLoop.simps createOrderItems.simps decrementStock_def itemTotal_def
  addNumber_def toFixed2_def orderWithItems_def orderItemsOf_def findOrder_def

text \<open>
  Claim C1 as stated fails where the total outgrows the precision of doubles: customer 5 of
  the depot holds 2000000001 bolts at 99999.99, all in stock; the exact total is
  199999980099999.99, and the order that \<open>placeOrder\<close> creates carries 199999980100000.00.
\<close>

theorem placeOrder_total_in_doubles_counterexample:
  "map quantity (itemsOf depot 1) = [2000000001]
   \<and> map stock (products depot) = [2100000000]
   \<and> statusCode (fst (placeOrder depot 5)) = 201
   \<and> map totalAmount (orders (snd (placeOrder depot 5))) = [Some 199999980100000]
   \<and> toFixed2 (sum_list (map (\<lambda>i. the (priceAtAdd i) * of_int (quantity i)) (itemsOf depot 1)))
       = 19999998009999999 / 100"
  by code_simp

text \<open>
  Claim C1, amended. Let the customer's cart hold the lines \<open>ls\<close>, not empty, every line with a
  price, and every line's quantity within the stock of its product. Then \<open>placeOrder\<close>
  answers 201 and
  \<^item> appends exactly one order, owned by the customer, with status "pending"; its
    \<open>totalAmount\<close> is \<open>toFixed(2)\<close> of the sum of \<open>priceAtAdd\<close> times quantity as
    the loop computes it in doubles, a multiple of 1/100; it is the exact sum whenever
    prices and quantities are not negative, the prices are multiples of 1/100, and
    \<open>(2 n + 3) (200 s + 1) < 2 ^ 53\<close> for \<open>n\<close> lines of exact sum \<open>s\<close>;
  \<^item> appends one order line per cart line, in order, each with the order's id and the
    line's product, quantity and \<open>priceAtAdd\<close> as \<open>priceAtPurchase\<close>;
  \<^item> lowers the stock of every product by the quantities of the lines that name it (by that
    line's quantity when one line names it, by nothing when none does);
  \<^item> deletes the lines of this cart and no other line; the carts stay.
\<close>

theorem placeOrder_converts_selection:
  assumes cart: "findCart d uid = Some c"
      and lines: "itemsOf d (cart_id c) = ls"
      and nonempty: "ls \<noteq> []"
      and instock: "\<forall>i\<in>set ls. \<exists>p. findProduct d (productId i) = Some p \<and> quantity i \<le> stock p"
      and priced: "\<forall>i\<in>set ls. priceAtAdd i \<noteq> None"
    shows "\<exists>r d' ord new.
             placeOrder d uid = (r, d') \<and> statusCode r = 201
           \<and> orders d' = orders d @ [ord]
           \<and> order_userId ord = uid \<and> status ord = ''pending''
           \<and> totalAmount ord = map_option toFixed2 (foldl addNumber (Some 0) (map itemTotal ls))
           \<and> (\<exists>n::int. totalAmount ord = Some (of_int n / 100))
           \<and> ((\<forall>i\<in>set ls. 0 \<le> quantity i \<and> 0 \<le> the (priceAtAdd i)
                    \<and> (\<exists>m::int. the (priceAtAdd i) = of_int m / 100))
                \<and> (2 * of_nat (length ls) + 3)
                    * (200 * sum_list (map (\<lambda>i. the (priceAtAdd i) * of_int (quantity i)) ls) + 1)
                  < (2::rat) ^ 53
                \<longrightarrow> totalAmount ord
                    = Some (sum_list (map (\<lambda>i. the (priceAtAdd i) * of_int (quantity i)) ls)))
           \<and> orderItems d' = orderItems d @ new
           \<and> map (\<lambda>oi. (orderId oi, oi_productId oi, oi_quantity oi, priceAtPurchase oi)) new
               = map (\<lambda>i. (order_id ord, productId i, quantity i, priceAtAdd i)) ls
           \<and> products d'
               = map (\<lambda>r. r\<lparr>stock := stock r
                      - sum_list (map quantity (filter (\<lambda>i. productId i = product_id r) ls))\<rparr>)
                   (products d)
           \<and> cartItems d' = filter (\<lambda>i. cartId i \<noteq> cart_id c) (cartItems d)
           \<and> itemsOf d' (cart_id c) = []
           \<and> carts d' = carts d"
proof -
  let ?items = "snd (cartWithItems d c)"
  let ?exact = "sum_list (map (\<lambda>i. the (priceAtAdd i) * of_int (quantity i)) ls)"
  have items: "?items = map (\<lambda>i. (i, findProduct d (productId i))) ls"
    using lines by (simp add: joined_lines)
  have ok: "\<forall>ip\<in>set ?items. \<exists>p. snd ip = Some p \<and> product_id p = productId (fst ip)
       \<and> quantity (fst ip) \<le> stock p"
    unfolding items using instock findProduct_id by fastforce
  from stockLoop_in_stock [OF ok, of d "Some 0" "[]"] obtain d1 t ols where
    loop: "stockLoop ?items d (Some 0) [] = Validated d1 t ols"
    and prods: "products d1 =
         map (\<lambda>r. r\<lparr>stock := stock r
                - sum_list (map (\<lambda>ip. quantity (fst ip))
                    (filter (\<lambda>ip. productId (fst ip) = product_id r) ?items))\<rparr>)
           (products d)"
    by blast
  have sums: "\<And>r. sum_list (map (\<lambda>ip. quantity (fst ip))
                    (filter (\<lambda>ip. productId (fst ip) = product_id r) ?items))
              = sum_list (map quantity (filter (\<lambda>i. productId i = product_id r) ls))"
    unfolding items by (simp add: filter_map comp_def)
  obtain r d' where run: "placeOrder d uid = (r, d')" by (cases "placeOrder d uid")
  have code: "statusCode r = 201"
    using cart run loop nonempty items by (auto simp: placeOrder_def Let_def)
  from placeOrder_created [OF cart run code] loop obtain ord new where
    made: "products d' = products d1" "orders d' = orders d @ [ord]"
      "order_userId ord = uid" "status ord = ''pending''"
      "totalAmount ord = map_option toFixed2
                 (foldl addNumber (Some 0) (map itemTotal (itemsOf d (cart_id c))))"
      "orderItems d' = orderItems d @ new"
      "map (\<lambda>oi. (orderId oi, oi_productId oi, oi_quantity oi, priceAtPurchase oi)) new
               = map (\<lambda>i. (order_id ord, productId i, quantity i, priceAtAdd i))
                   (itemsOf d (cart_id c))"
      "cartItems d' = filter (\<lambda>i. cartId i \<noteq> cart_id c) (cartItems d)"
      "carts d' = carts d"
    by auto
  have total: "totalAmount ord = map_option toFixed2 (foldl addNumber (Some 0) (map itemTotal ls))"
    using made(5) lines by simp
  from total_some [OF priced, of 0] obtain t' where
    t': "foldl addNumber (Some 0) (map itemTotal ls) = Some t'" by blast
  from toFixed2_grid [of t'] obtain n :: int where "toFixed2 t' = of_int n / 100" by blast
  then have "totalAmount ord = Some (of_int n / 100)" using total t' by simp
  then have grid: "\<exists>n::int. totalAmount ord = Some (of_int n / 100)" by blast
  have exact: "(\<forall>i\<in>set ls. 0 \<le> quantity i \<and> 0 \<le> the (priceAtAdd i)
                    \<and> (\<exists>m::int. the (priceAtAdd i) = of_int m / 100))
                \<and> (2 * of_nat (length ls) + 3) * (200 * ?exact + 1) < (2::rat) ^ 53
                \<longrightarrow> totalAmount ord = Some ?exact"
  proof
    assume a: "(\<forall>i\<in>set ls. 0 \<le> quantity i \<and> 0 \<le> the (priceAtAdd i)
                    \<and> (\<exists>m::int. the (priceAtAdd i) = of_int m / 100))
                \<and> (2 * of_nat (length ls) + 3) * (200 * ?exact + 1) < (2::rat) ^ 53"
    have l: "\<forall>i\<in>set ls. \<exists>pr. priceAtAdd i = Some pr \<and> 0 \<le> pr \<and> 0 \<le> quantity i"
      using a priced by fastforce
    have g: "\<forall>i\<in>set ls. \<exists>m::int. the (priceAtAdd i) = of_int m / 100" using a by blast
    have s: "(2 * of_nat (length ls) + 3) * (200 * ?exact + 1) < (2::rat) ^ 53" using a by blast
    show "totalAmount ord = Some ?exact"
      using total total_exact [OF l g s] by simp
  qed
  have gone: "itemsOf d' (cart_id c) = []"
    using made(8) by (simp add: itemsOf_def)
  have stocks: "products d'
               = map (\<lambda>r. r\<lparr>stock := stock r
                      - sum_list (map quantity (filter (\<lambda>i. productId i = product_id r) ls))\<rparr>)
                   (products d)"
    by (simp only: made(1) prods sums)
  note copied = made(7) [unfolded lines]
  show ?thesis
    by (intro exI [of _ r] exI [of _ d'] exI [of _ ord] exI [of _ new] conjI
        run code made(2) made(3) made(4) total grid exact made(6) copied stocks made(8) gone
        made(9))
qed

text \<open>Customer 2 of the shop checks out 2 tablets at 399.99: total 799.98, stock 15 to 13,
  cart empty.\<close>

theorem placeOrder_converts_selection_witness:
  "statusCode (fst (placeOrder shop 2)) = 201
   \<and> map (\<lambda>ord. (order_userId ord, status ord, totalAmount ord)) (orders (snd (placeOrder shop 2)))
       = [(2, ''pending'', Some (79998 / 100)), (2, ''pending'', Some (79998 / 100))]
   \<and> map (\<lambda>oi. (oi_productId oi, oi_quantity oi, priceAtPurchase oi))
         (orderItems (snd (placeOrder shop 2)))
       = [(1, 2, Some (39999 / 100)), (1, 2, Some (39999 / 100))]
   \<and> map stock (products shop) = [15, 1]
   \<and> map stock (products (snd (placeOrder shop 2))) = [13, 1]
   \<and> itemsOf shop 1 \<noteq> []
   \<and> itemsOf (snd (placeOrder shop 2)) 1 = []"
proof -
  let ?c = "\<lparr>cart_id = 1, cart_userId = 2\<rparr>"
  let ?ls = "[\<lparr>item_id = 1, cartId = 1, productId = 1, quantity = 2,
               priceAtAdd = Some (39999 / 100)\<rparr>]"
  have cart: "findCart shop 2 = Some ?c" by (simp add: findCart_def shop_def)
  have lines: "itemsOf shop (cart_id ?c) = ?ls" by (simp add: itemsOf_def shop_def)
  have nonempty: "?ls \<noteq> []" by simp
  have instock: "\<forall>i\<in>set ?ls. \<exists>p. findProduct shop (productId i) = Some p \<and> quantity i \<le> stock p"
    by (simp add: findProduct_def shop_def tablet_def)
  have priced: "\<forall>i\<in>set ?ls. priceAtAdd i \<noteq> None" by simp
  have "(39999 / 100 :: rat) = of_int 39999 / 100" by simp
  then have cents: "\<exists>m::int. (39999 / 100 :: rat) = of_int m / 100" by blast
  have fits: "(\<forall>i\<in>set ?ls. 0 \<le> quantity i \<and> 0 \<le> the (priceAtAdd i)
                    \<and> (\<exists>m::int. the (priceAtAdd i) = of_int m / 100))
                \<and> (2 * of_nat (length ?ls) + 3)
                    * (200 * sum_list (map (\<lambda>i. the (priceAtAdd i) * of_int (quantity i)) ?ls) + 1)
                  < (2::rat) ^ 53"
    using cents by simp
  from placeOrder_converts_selection [OF cart lines nonempty instock priced]
  obtain r d' ord new where
    run: "placeOrder shop 2 = (r, d')" "statusCode r = 201"
    and o: "orders d' = orders shop @ [ord]" "order_userId ord = 2" "status ord = ''pending''"
    and tot: "(\<forall>i\<in>set ?ls. 0 \<le> quantity i \<and> 0 \<le> the (priceAtAdd i)
                    \<and> (\<exists>m::int. the (priceAtAdd i) = of_int m / 100))
                \<and> (2 * of_nat (length ?ls) + 3)
                    * (200 * sum_list (map (\<lambda>i. the (priceAtAdd i) * of_int (quantity i)) ?ls) + 1)
                  < (2::rat) ^ 53
                \<longrightarrow> totalAmount ord
                    = Some (sum_list (map (\<lambda>i. the (priceAtAdd i) * of_int (quantity i)) ?ls))"
    and oi: "orderItems d' = orderItems shop @ new"
      "map (\<lambda>oi. (orderId oi, oi_productId oi, oi_quantity oi, priceAtPurchase oi)) new
         = map (\<lambda>i. (order_id ord, productId i, quantity i, priceAtAdd i)) ?ls"
    and st: "products d'
               = map (\<lambda>r. r\<lparr>stock := stock r
                      - sum_list (map quantity (filter (\<lambda>i. productId i = product_id r) ?ls))\<rparr>)
                   (products shop)"
    and gone: "itemsOf d' (cart_id ?c) = []"
    by blast
  from tot fits have "totalAmount ord
      = Some (sum_list (map (\<lambda>i. the (priceAtAdd i) * of_int (quantity i)) ?ls))"
    by (rule mp)
  then have total: "totalAmount ord = Some (79998 / 100)" by simp
  from oi(2) obtain x where x: "new = [x]" "oi_productId x = 1" "oi_quantity x = 2"
    "priceAtPurchase x = Some (39999 / 100)"
    by auto
  have a: "map (\<lambda>ord. (order_userId ord, status ord, totalAmount ord)) (orders d')
       = [(2, ''pending'', Some (79998 / 100)), (2, ''pending'', Some (79998 / 100))]"
    using o total by (simp add: shop_def)
  have b: "map (\<lambda>oi. (oi_productId oi, oi_quantity oi, priceAtPurchase oi)) (orderItems d')
       = [(1, 2, Some (39999 / 100)), (1, 2, Some (39999 / 100))]"
    using oi(1) x by (simp add: shop_def)
  have c: "map stock (products d') = [13, 1]" "map stock (products shop) = [15, 1]"
    unfolding st by (simp_all add: shop_def tablet_def almostGone_def)
  show ?thesis using run a b c gone lines by simp
qed

text \<open>
  Claim C2. Let the customer's cart hold the lines \<open>ls\<close>, each naming an existing product,
  and let some line ask for more than its product's stock. Then \<open>placeOrder\<close> answers 400
  "Insufficient stock", naming a product of such a line and that product's stock, and the
  database it returns is the one it was given: no order, no order line, every cart line and
  every stock as before.
\<close>

theorem placeOrder_insufficient_stock_rolls_back:
  assumes cart: "findCart d uid = Some c"
      and lines: "itemsOf d (cart_id c) = ls"
      and known: "\<forall>i\<in>set ls. findProduct d (productId i) \<noteq> None"
      and short: "\<exists>i\<in>set ls. \<exists>p. findProduct d (productId i) = Some p \<and> stock p < quantity i"
    shows "\<exists>i\<in>set ls. \<exists>p. findProduct d (productId i) = Some p \<and> stock p < quantity i
             \<and> placeOrder d uid
                 = (Response 400 False (Some (InsufficientStockFor (name p) (stock p))) NoData, d)"
proof -
  let ?items = "snd (cartWithItems d c)"
  have items: "?items = map (\<lambda>i. (i, findProduct d (productId i))) ls"
    using lines by (simp add: joined_lines)
  have a: "\<forall>ip\<in>set ?items. snd ip \<noteq> None" unfolding items using known by auto
  have b: "\<exists>ip\<in>set ?items. \<exists>p. snd ip = Some p \<and> stock p < quantity (fst ip)"
    unfolding items using short by auto
  from stockLoop_short [OF a b, of d "Some 0" "[]"] obtain ip p where
    ip: "ip \<in> set ?items" "snd ip = Some p" "stock p < quantity (fst ip)"
    and loop: "stockLoop ?items d (Some 0) [] = OutOfStock (name p) (stock p)"
    by blast
  from ip(1,2) have i: "fst ip \<in> set ls" "findProduct d (productId (fst ip)) = Some p"
    unfolding items by auto
  have ne: "?items \<noteq> []" using ip(1) by auto
  have "placeOrder d uid
      = (Response 400 False (Some (InsufficientStockFor (name p) (stock p))) NoData, d)"
    using cart loop ne by (simp add: placeOrder_def Let_def)
  with i ip(3) show ?thesis by blast
qed

text \<open>Customer 3 holds 2 of "Almost Gone", of which 1 is left.\<close>

theorem placeOrder_insufficient_stock_rolls_back_witness:
  "map quantity (itemsOf shop 2) = [2]
   \<and> map stock (filter (\<lambda>p. product_id p = 2) (products shop)) = [1]
   \<and> placeOrder shop 3
       = (Response 400 False (Some (InsufficientStockFor ''Almost Gone'' 1)) NoData, shop)"
proof -
  let ?c = "\<lparr>cart_id = 2, cart_userId = 3\<rparr>"
  let ?ls = "[\<lparr>item_id = 2, cartId = 2, productId = 2, quantity = 2,
               priceAtAdd = Some (4999 / 100)\<rparr>]"
  have cart: "findCart shop 3 = Some ?c" by (simp add: findCart_def shop_def)
  have lines: "itemsOf shop (cart_id ?c) = ?ls" by (simp add: itemsOf_def shop_def)
  have prod: "findProduct shop 2 = Some almostGone"
    by (simp add: findProduct_def shop_def tablet_def almostGone_def)
  have known: "\<forall>i\<in>set ?ls. findProduct shop (productId i) \<noteq> None" using prod by simp
  have short: "\<exists>i\<in>set ?ls. \<exists>p. findProduct shop (productId i) = Some p \<and> stock p < quantity i"
    using prod by (simp add: almostGone_def)
  from placeOrder_insufficient_stock_rolls_back [OF cart lines known short]
  have "placeOrder shop 3
       = (Response 400 False (Some (InsufficientStockFor (name almostGone) (stock almostGone)))
            NoData, shop)"
    using prod by auto
  moreover have "map quantity (itemsOf shop 2) = [2]" using lines by simp
  moreover have "map stock (filter (\<lambda>p. product_id p = 2) (products shop)) = [1]"
    by (simp add: shop_def tablet_def almostGone_def)
  ultimately show ?thesis by (simp add: almostGone_def)
qed

text \<open>
  Claim C4. A run of catalog updates, whatever prices it sets, leaves the table of cart
  lines as it is, so every line keeps its \<open>priceAtAdd\<close>. When a checkout after those
  updates answers 201, the order lines it appends carry as \<open>priceAtPurchase\<close> the
  \<open>priceAtAdd\<close> that the customer's lines had before the updates, line by line, with the
  line's product and quantity.
\<close>

theorem price_change_leaves_frozen_price:
  "cartItems (catalogUpdates d ups) = cartItems d
   \<and> (findCart d uid = Some c
        \<and> placeOrder (catalogUpdates d ups) uid = (r, d2) \<and> statusCode r = 201 \<longrightarrow>
        (\<exists>ord new. orders d2 = orders d @ [ord]
           \<and> orderItems d2 = orderItems d @ new
           \<and> map (\<lambda>oi. (orderId oi, oi_productId oi, oi_quantity oi, priceAtPurchase oi)) new
               = map (\<lambda>i. (order_id ord, productId i, quantity i, priceAtAdd i))
                   (itemsOf d (cart_id c))))"
proof (intro conjI impI)
  show "cartItems (catalogUpdates d ups) = cartItems d"
    by (simp add: catalogUpdates_keeps_selection)
next
  let ?d1 = "catalogUpdates d ups"
  assume a: "findCart d uid = Some c \<and> placeOrder ?d1 uid = (r, d2) \<and> statusCode r = 201"
  have same: "carts ?d1 = carts d" "cartItems ?d1 = cartItems d" "orders ?d1 = orders d"
    "orderItems ?d1 = orderItems d"
    by (simp_all add: catalogUpdates_keeps_selection)
  have cart: "findCart ?d1 uid = Some c" using a same by (simp add: findCart_def)
  have lines: "itemsOf ?d1 (cart_id c) = itemsOf d (cart_id c)"
    using same by (simp add: itemsOf_def)
  from a have run: "placeOrder ?d1 uid = (r, d2)" and code: "statusCode r = 201" by simp_all
  from placeOrder_created [OF cart run code] obtain ord new where
    "orders d2 = orders ?d1 @ [ord]" "orderItems d2 = orderItems ?d1 @ new"
    "map (\<lambda>oi. (orderId oi, oi_productId oi, oi_quantity oi, priceAtPurchase oi)) new
       = map (\<lambda>i. (order_id ord, productId i, quantity i, priceAtAdd i))
           (itemsOf ?d1 (cart_id c))"
    by blast
  then show "\<exists>ord new. orders d2 = orders d @ [ord]
           \<and> orderItems d2 = orderItems d @ new
           \<and> map (\<lambda>oi. (orderId oi, oi_productId oi, oi_quantity oi, priceAtPurchase oi)) new
               = map (\<lambda>i. (order_id ord, productId i, quantity i, priceAtAdd i))
                   (itemsOf d (cart_id c))"
    using same lines by auto
qed

text \<open>The tablet goes from 399.99 to 499.99 while customer 2 holds it in the cart; the line
  and the order line stay at 399.99.\<close>

theorem price_change_leaves_frozen_price_witness:
  "map priceAtAdd (itemsOf shop 1) = [Some (39999 / 100)]
   \<and> map priceAtAdd (itemsOf (catalogUpdates shop [(1, raisePrice)]) 1) = [Some (39999 / 100)]
   \<and> map price (filter (\<lambda>p. product_id p = 1) (products (catalogUpdates shop [(1, raisePrice)])))
       = [49999 / 100]
   \<and> statusCode (fst (placeOrder (catalogUpdates shop [(1, raisePrice)]) 2)) = 201
   \<and> map priceAtPurchase
         (drop (length (orderItems shop))
            (orderItems (snd (placeOrder (catalogUpdates shop [(1, raisePrice)]) 2))))
       = [Some (39999 / 100)]"
proof -
  let ?c = "\<lparr>cart_id = 1, cart_userId = 2\<rparr>"
  define d1 where "d1 = catalogUpdates shop [(1, raisePrice)]"
  have cart: "findCart shop 2 = Some ?c" by (simp add: findCart_def shop_def)
  have lines: "itemsOf shop (cart_id ?c) = [\<lparr>item_id = 1, cartId = 1, productId = 1, quantity = 2,
               priceAtAdd = Some (39999 / 100)\<rparr>]"
    by (simp add: itemsOf_def shop_def)
  have d1v: "d1 = shop\<lparr>products := [tablet\<lparr>price := 49999 / 100\<rparr>, almostGone]\<rparr>"
    unfolding d1_def by (simp add: shop_eval)
  obtain r d2 where run: "placeOrder d1 2 = (r, d2)" by (cases "placeOrder d1 2")
  have code: "statusCode r = 201"
    using run unfolding d1v by (auto simp: shop_eval checkout_eval)
  note t = price_change_leaves_frozen_price [of shop "[(1, raisePrice)]" 2 ?c r d2,
      folded d1_def]
  from t cart run code have "\<exists>ord new. orders d2 = orders shop @ [ord]
           \<and> orderItems d2 = orderItems shop @ new
           \<and> map (\<lambda>oi. (orderId oi, oi_productId oi, oi_quantity oi, priceAtPurchase oi)) new
               = map (\<lambda>i. (order_id ord, productId i, quantity i, priceAtAdd i))
                   (itemsOf shop (cart_id ?c))"
    by blast
  then obtain ord :: order and new :: "orderItem list" where
    "orderItems d2 = orderItems shop @ new"
    "map (\<lambda>oi. (orderId oi, oi_productId oi, oi_quantity oi, priceAtPurchase oi)) new
       = map (\<lambda>i. (order_id ord, productId i, quantity i, priceAtAdd i))
                   (itemsOf shop (cart_id ?c))"
    by blast
  then have p: "map priceAtPurchase (drop (length (orderItems shop)) (orderItems d2))
       = [Some (39999 / 100)]"
    unfolding lines by auto
  have keep: "map priceAtAdd (itemsOf d1 1) = [Some (39999 / 100)]"
    using t lines by (simp add: itemsOf_def)
  have pr: "map price (filter (\<lambda>p. product_id p = 1) (products d1)) = [49999 / 100]"
    unfolding d1v by (simp add: tablet_def almostGone_def)
  show ?thesis
    using lines keep pr run code p unfolding d1_def by simp
qed


end
